theory Spec2Isabelle
  imports Complex_Main "HOL-Library.Word"
begin

section \<open>Static structure factor accumulation engine\<close>

text \<open>
  A shallow embedding of \<^verbatim>\<open>cpp/diffraction/StaticStructureFactor.cc\<close>: the
  constructor, \<^verbatim>\<open>accumulate\<close> with its two estimators, and \<^verbatim>\<open>reduce\<close>.
  The object is a record that every member function takes and returns; an exception is
  an outcome next to the object as the throw left it.
\<close>

subsection \<open>Floating-point values\<close>

text \<open>
  \<^verbatim>\<open>float\<close> and \<^verbatim>\<open>double\<close> are idealised: a finite value is a real number
  (no rounding, no overflow, one zero), and the special values of IEEE 754 are kept, so
  that a division by zero, a comparison with a NaN and the initial infinity of
  \<^verbatim>\<open>m_min_valid_k\<close> behave as in the program.
\<close>

datatype float = Fin real | PInf | NInf | NaN

fun fadd :: "float \<Rightarrow> float \<Rightarrow> float" where
  "fadd (Fin a) (Fin b) = Fin (a + b)"
| "fadd NaN _ = NaN"
| "fadd _ NaN = NaN"
| "fadd PInf NInf = NaN"
| "fadd NInf PInf = NaN"
| "fadd PInf _ = PInf"
| "fadd _ PInf = PInf"
| "fadd NInf _ = NInf"
| "fadd _ NInf = NInf"

fun fneg :: "float \<Rightarrow> float" where
  "fneg (Fin a) = Fin (- a)"
| "fneg PInf = NInf"
| "fneg NInf = PInf"
| "fneg NaN = NaN"

fun fmul :: "float \<Rightarrow> float \<Rightarrow> float" where
  "fmul (Fin a) (Fin b) = Fin (a * b)"
| "fmul NaN _ = NaN"
| "fmul _ NaN = NaN"
| "fmul (Fin a) PInf = (if 0 < a then PInf else if a < 0 then NInf else NaN)"
| "fmul (Fin a) NInf = (if 0 < a then NInf else if a < 0 then PInf else NaN)"
| "fmul PInf (Fin b) = (if 0 < b then PInf else if b < 0 then NInf else NaN)"
| "fmul NInf (Fin b) = (if 0 < b then NInf else if b < 0 then PInf else NaN)"
| "fmul PInf PInf = PInf"
| "fmul PInf NInf = NInf"
| "fmul NInf PInf = NInf"
| "fmul NInf NInf = PInf"

fun fdiv :: "float \<Rightarrow> float \<Rightarrow> float" where
  "fdiv (Fin a) (Fin b) =
     (if b \<noteq> 0 then Fin (a / b)
      else if 0 < a then PInf else if a < 0 then NInf else NaN)"
| "fdiv NaN _ = NaN"
| "fdiv _ NaN = NaN"
| "fdiv (Fin a) PInf = Fin 0"
| "fdiv (Fin a) NInf = Fin 0"
| "fdiv PInf (Fin b) = (if 0 \<le> b then PInf else NInf)"
| "fdiv NInf (Fin b) = (if 0 \<le> b then NInf else PInf)"
| "fdiv PInf PInf = NaN"
| "fdiv PInf NInf = NaN"
| "fdiv NInf PInf = NaN"
| "fdiv NInf NInf = NaN"

fun flt :: "float \<Rightarrow> float \<Rightarrow> bool" where
  "flt (Fin a) (Fin b) \<longleftrightarrow> a < b"
| "flt NaN _ \<longleftrightarrow> False"
| "flt _ NaN \<longleftrightarrow> False"
| "flt _ NInf \<longleftrightarrow> False"
| "flt PInf _ \<longleftrightarrow> False"
| "flt NInf _ \<longleftrightarrow> True"
| "flt _ PInf \<longleftrightarrow> True"

fun fle :: "float \<Rightarrow> float \<Rightarrow> bool" where
  "fle (Fin a) (Fin b) \<longleftrightarrow> a \<le> b"
| "fle NaN _ \<longleftrightarrow> False"
| "fle _ NaN \<longleftrightarrow> False"
| "fle NInf _ \<longleftrightarrow> True"
| "fle _ PInf \<longleftrightarrow> True"
| "fle _ NInf \<longleftrightarrow> False"
| "fle PInf _ \<longleftrightarrow> False"

instantiation float :: "{comm_monoid_add, one, uminus, minus, times, inverse, ord}"
begin

definition zero_float :: float where
  "zero_float = Fin 0"

definition one_float :: float where
  "one_float = Fin 1"

definition plus_float :: "float \<Rightarrow> float \<Rightarrow> float" where
  "plus_float = fadd"

definition uminus_float :: "float \<Rightarrow> float" where
  "uminus_float = fneg"

definition minus_float :: "float \<Rightarrow> float \<Rightarrow> float" where
  "minus_float a b = fadd a (fneg b)"

definition times_float :: "float \<Rightarrow> float \<Rightarrow> float" where
  "times_float = fmul"

definition divide_float :: "float \<Rightarrow> float \<Rightarrow> float" where
  "divide_float = fdiv"

definition inverse_float :: "float \<Rightarrow> float" where
  "inverse_float a = fdiv (Fin 1) a"

definition less_float :: "float \<Rightarrow> float \<Rightarrow> bool" where
  "less_float = flt"

definition less_eq_float :: "float \<Rightarrow> float \<Rightarrow> bool" where
  "less_eq_float = fle"

instance
proof
  fix a b c :: float
  show "a + b + c = a + (b + c)"
    unfolding plus_float_def by (cases a; cases b; cases c) simp_all
  show "a + b = b + a"
    unfolding plus_float_def by (cases a; cases b) simp_all
  show "0 + a = a"
    unfolding plus_float_def zero_float_def by (cases a) simp_all
qed

end

text \<open>\<^verbatim>\<open>std::min(a, b)\<close> is \<^verbatim>\<open>(b < a) ? b : a\<close>.\<close>

definition std_min :: "float \<Rightarrow> float \<Rightarrow> float" where
  "std_min a b = (if b < a then b else a)"

text \<open>\<^verbatim>\<open>static_cast<float>\<close> of an \<^verbatim>\<open>unsigned int\<close>.\<close>

definition of_uint :: "32 word \<Rightarrow> float" where
  "of_uint w = Fin (real (unat w))"

fun fsin :: "float \<Rightarrow> float" where
  "fsin (Fin a) = Fin (sin a)"
| "fsin PInf = NaN"
| "fsin NInf = NaN"
| "fsin NaN = NaN"

text \<open>
  Modelled from the spec: \<^verbatim>\<open>util::sinc\<close> of \<^verbatim>\<open>utils.h\<close>, which is not among the
  sources: \<open>sin(x)/x\<close>, with \<open>sinc(0) = 1\<close>.
\<close>

definition sinc :: "float \<Rightarrow> float" where
  "sinc x = (if x = 0 then 1 else fsin x / x)"

text \<open>
  Modelled from the spec: \<^verbatim>\<open>freud::constants::TWO_PI\<close>, the constant \<open>2\<pi>\<close>.
\<close>

definition TWO_PI :: float where
  "TWO_PI = Fin (2 * pi)"

text \<open>
  Modelled from the spec: \<^verbatim>\<open>util::simpson_integrate\<close> of \<^verbatim>\<open>utils.h\<close>, Simpson's
  composite rule over \<open>num_points\<close> equally spaced samples (an odd number): the end
  points once, the odd samples four times, the inner even samples twice, all times
  \<open>dx/3\<close>.
\<close>

definition simpson_integrate :: "(nat \<Rightarrow> float) \<Rightarrow> nat \<Rightarrow> float \<Rightarrow> float" where
  "simpson_integrate integrand num_points dx =
     (dx / Fin 3) *
       (integrand 0 + integrand (num_points - 1) +
        foldl (+) 0
          (map (\<lambda>i. (if odd i then Fin 4 else Fin 2) * integrand i) [1..<num_points - 1]))"

subsection \<open>The collaborators: box, frame, histogram axis\<close>

datatype vec3 = Vec3 (vx: float) (vy: float) (vz: float)

text \<open>
  \<^verbatim>\<open>Box.h\<close> is not among the sources. The box is what the engine reads from it: its
  side lengths, its dimensionality, its volume and the distance of two points under its
  periodic boundary.
\<close>

record box =
  getL :: vec3
  is2D :: bool
  getVolume :: float
  computeDistance :: "vec3 \<Rightarrow> vec3 \<Rightarrow> float"

text \<open>
  Modelled from the spec: \<^verbatim>\<open>Box::computeAllDistances\<close>, the distances of all ordered
  pairs of the two point arrays, row by row (self-pairs included when the arrays are the
  same).
\<close>

definition computeAllDistances ::
  "box \<Rightarrow> vec3 list \<Rightarrow> nat \<Rightarrow> vec3 list \<Rightarrow> nat \<Rightarrow> float list" where
  "computeAllDistances b query_pts n_query_pts pts n_pts =
     concat (map (\<lambda>i. map (\<lambda>j. computeDistance b (query_pts ! i) (pts ! j)) [0..<n_pts])
                 [0..<n_query_pts])"

text \<open>
  One call of \<^verbatim>\<open>accumulate\<close>: the neighbor query (of which the engine uses the box),
  the query points and their count, an \<^verbatim>\<open>unsigned int\<close>.
\<close>

record frame =
  getBox :: box
  query_points :: "vec3 list"
  n_query_points :: "32 word"

text \<open>
  Modelled from the spec: \<^verbatim>\<open>util::RegularAxis\<close> of \<^verbatim>\<open>Histogram.h\<close>, which is not
  among the sources: \<open>nbins\<close> bins of equal width between two bounds.
\<close>

record axis =
  nbins :: nat
  axis_min :: float
  axis_max :: float

definition bin_width :: "axis \<Rightarrow> float" where
  "bin_width ax = (axis_max ax - axis_min ax) / Fin (real (nbins ax))"

text \<open>
  Modelled from the spec: \<^verbatim>\<open>getBinCenters\<close>, the midpoints of the bins of an axis, in
  increasing order.
\<close>

definition getBinCenters :: "axis \<Rightarrow> float list" where
  "getBinCenters ax =
     map (\<lambda>i. axis_min ax + Fin (real i + 1 / 2) * bin_width ax) [0..<nbins ax]"

subsection \<open>Thread-local histograms\<close>

text \<open>
  Modelled from the spec: \<^verbatim>\<open>ThreadLocalHistogram\<close> of \<^verbatim>\<open>Histogram.h\<close>, which is
  not among the sources. Every worker owns a histogram, created with all cells zero on
  the worker's first write; the histograms are kept with the workers' identities, in the
  order of their creation.
\<close>

type_synonym local_histograms = "(nat \<times> float list) list"

text \<open>
  Modelled from the spec: \<^verbatim>\<open>ThreadLocalHistogram::increment\<close>, which adds a value to
  one cell of the calling worker's histogram (here worker \<open>w\<close>, and \<open>nb\<close> cells in a new
  histogram). A bin index is always below the number of bins here: the loops that call
  \<^verbatim>\<open>increment\<close> run over the axis.
\<close>

fun increment :: "nat \<Rightarrow> nat \<Rightarrow> nat \<Rightarrow> float \<Rightarrow> local_histograms \<Rightarrow> local_histograms" where
  "increment nb w bin v [] = [(w, (replicate nb 0)[bin := 0 + v])]"
| "increment nb w bin v ((w', h) # hs) =
     (if w' = w then (w', h[bin := h ! bin + v]) # hs
      else (w', h) # increment nb w bin v hs)"

text \<open>
  Modelled from the spec: \<^verbatim>\<open>ThreadLocalHistogram::reduceInto\<close>, which overwrites every
  cell of the target with the sum of that cell over the workers' histograms (\<open>merged\<close>),
  and leaves the workers' histograms as they are.
\<close>

definition merged :: "local_histograms \<Rightarrow> nat \<Rightarrow> float" where
  "merged hs i = foldl (\<lambda>acc wh. acc + snd wh ! i) 0 hs"

definition reduceInto :: "local_histograms \<Rightarrow> float list \<Rightarrow> float list" where
  "reduceInto hs result = map (merged hs) [0..<length result]"

subsection \<open>The engine\<close>

datatype error = invalid_argument string | collaborator_error string

text \<open>
  How a call ends: it returns, it throws, or it reads or writes outside an array, after
  which C++ promises nothing (the state next to \<open>Undefined\<close> has no meaning).
\<close>

datatype outcome = Returns | Throws error | Undefined

text \<open>
  What a call of \<^verbatim>\<open>accumulate\<close> gets from outside the engine: the worker that
  \<^verbatim>\<open>util::forLoopWrapper\<close> gives each loop index to, \<^verbatim>\<open>std::nextafter\<close>, and the
  RDF collaborator (\<^verbatim>\<open>RDF.h\<close> is not among the sources): constructed with a bin count
  and \<open>r_max\<close> and accumulated over the frame, it throws or yields its bin centers and
  its values of \<open>g(r)\<close>.
\<close>

record env =
  worker_of :: "nat \<Rightarrow> nat"
  nextafter :: "float \<Rightarrow> float \<Rightarrow> float"
  rdf_accumulate :: "nat \<Rightarrow> float \<Rightarrow> frame \<Rightarrow> error + (float list \<times> float list)"

record ssf =
  m_direct :: bool
  m_frame_counter :: "32 word"
  m_histogram :: axis
  m_local_histograms :: local_histograms
  m_min_valid_k :: float
  m_structure_factor :: "float list"
  m_reduce :: bool

text \<open>
  The constructor. It does not write \<^verbatim>\<open>m_reduce\<close>: the member keeps the value of its
  initialiser in the header, which is not among the sources, here \<open>reduce0\<close>.
\<close>

definition StaticStructureFactor ::
  "bool \<Rightarrow> 32 word \<Rightarrow> float \<Rightarrow> float \<Rightarrow> bool \<Rightarrow> error + ssf" where
  "StaticStructureFactor reduce0 bins k_max k_min direct =
     (if bins = 0 then
        Inl (invalid_argument ''StaticStructureFactor requires a nonzero number of bins.'')
      else if k_max \<le> Fin 0 then
        Inl (invalid_argument ''StaticStructureFactor requires k_max to be positive.'')
      else if k_max \<le> k_min then
        Inl (invalid_argument
          ''StaticStructureFactor requires that k_max must be greater than k_min.'')
      else
        Inr \<lparr>m_direct = direct, m_frame_counter = 0,
             m_histogram = \<lparr>nbins = unat bins, axis_min = k_min, axis_max = k_max\<rparr>,
             m_local_histograms = [],
             m_min_valid_k = PInf,
             m_structure_factor = replicate (unat bins) 0,
             m_reduce = reduce0\<rparr>)"

definition accumulateDirect :: "env \<Rightarrow> frame \<Rightarrow> ssf \<Rightarrow> outcome \<times> ssf" where
  "accumulateDirect e f s =
     (let box = getBox f;
          n = n_query_points f;
          distances_size = unat (n * n)
      in if length (query_points f) < unat n \<or> distances_size < unat n * unat n
         then (Undefined, s)
         else
           let distances =
                 computeAllDistances box (query_points f) (unat n) (query_points f) (unat n);
               k_bin_centers = getBinCenters (m_histogram s)
           in (Returns,
               s\<lparr>m_local_histograms :=
                   fold (\<lambda>k_index.
                           let k = k_bin_centers ! k_index;
                               S_k = foldl (\<lambda>S_k distance. S_k + sinc (k * distance))
                                       0 distances
                           in increment (nbins (m_histogram s)) (worker_of e k_index) k_index
                                (S_k / of_uint n))
                        [0..<nbins (m_histogram s)] (m_local_histograms s)\<rparr>))"

definition rdf_bins :: nat where
  "rdf_bins = 1001"

definition min_box_length :: "box \<Rightarrow> float" where
  "min_box_length b =
     (let box_L = getL b
      in if is2D b then std_min (vx box_L) (vy box_L)
         else std_min (vx box_L) (std_min (vy box_L) (vz box_L)))"

definition r_max_of :: "env \<Rightarrow> box \<Rightarrow> float" where
  "r_max_of e b = nextafter e (Fin (1 / 2) * min_box_length b) (Fin 0)"

definition rdf_dr :: "float list \<Rightarrow> float" where
  "rdf_dr rdf_centers =
     (last rdf_centers - hd rdf_centers) / Fin (real (length rdf_centers))"

definition accumulateRDF :: "env \<Rightarrow> frame \<Rightarrow> ssf \<Rightarrow> outcome \<times> ssf" where
  "accumulateRDF e f s =
     (let box = getBox f;
          normalization = Fin 2 * TWO_PI * of_uint (n_query_points f) / getVolume box;
          r_max = r_max_of e box;
          s1 = s\<lparr>m_min_valid_k := std_min (m_min_valid_k s) (TWO_PI / r_max)\<rparr>
      in case rdf_accumulate e rdf_bins r_max f of
           Inl err \<Rightarrow> (Throws err, s1)
         | Inr (rdf_centers, rdf_values) \<Rightarrow>
             if length rdf_centers < rdf_bins \<or> length rdf_values < rdf_bins
             then (Undefined, s1)
             else
               let k_bin_centers = getBinCenters (m_histogram s1)
               in (Returns,
                   s1\<lparr>m_local_histograms :=
                       fold (\<lambda>k_index.
                               let k = k_bin_centers ! k_index;
                                   integrand = (\<lambda>rdf_index.
                                     let r = rdf_centers ! rdf_index;
                                         g_r = rdf_values ! rdf_index
                                     in r * r * (g_r - Fin 1) * sinc (k * r));
                                   dr = rdf_dr rdf_centers;
                                   integral = simpson_integrate integrand rdf_bins dr
                               in increment (nbins (m_histogram s1)) (worker_of e k_index)
                                    k_index (normalization * integral))
                            [0..<length k_bin_centers] (m_local_histograms s1)\<rparr>))"

definition accumulate :: "env \<Rightarrow> frame \<Rightarrow> ssf \<Rightarrow> outcome \<times> ssf" where
  "accumulate e f s =
     (case (if m_direct s then accumulateDirect e f s else accumulateRDF e f s) of
        (Returns, s') \<Rightarrow>
          (Returns, s'\<lparr>m_frame_counter := m_frame_counter s' + 1, m_reduce := True\<rparr>)
      | (out, s') \<Rightarrow> (out, s'))"

definition reduce :: "ssf \<Rightarrow> ssf" where
  "reduce s =
     (let merged_sf = reduceInto (m_local_histograms s) (m_structure_factor s)
      in if m_direct s then
           (if 1 < m_frame_counter s
            then s\<lparr>m_structure_factor :=
                     map (\<lambda>x. x / of_uint (m_frame_counter s)) merged_sf\<rparr>
            else s\<lparr>m_structure_factor := merged_sf\<rparr>)
         else
           s\<lparr>m_structure_factor :=
               map (\<lambda>x. Fin 1 + x / of_uint (m_frame_counter s)) merged_sf\<rparr>)"

subsection \<open>Sequences of calls\<close>

text \<open>
  The calls an engine receives during its lifetime, each \<^verbatim>\<open>accumulate\<close> with what it
  gets from outside. A caller may catch an exception and go on with the same object; after
  an \<open>Undefined\<close> outcome there is no state to go on with.
\<close>

datatype call = Accumulate env frame | Reduce

fun run :: "call list \<Rightarrow> ssf \<Rightarrow> ssf option" where
  "run [] s = Some s"
| "run (Reduce # cs) s = run cs (reduce s)"
| "run (Accumulate e f # cs) s =
     (case accumulate e f s of
        (Undefined, _) \<Rightarrow> None
      | (_, s') \<Rightarrow> run cs s')"

text \<open>The bound \<open>2\<pi> / r_max\<close> of every \<^verbatim>\<open>accumulate\<close> of a sequence of calls.\<close>

fun k_bounds :: "call list \<Rightarrow> float list" where
  "k_bounds [] = []"
| "k_bounds (Reduce # cs) = k_bounds cs"
| "k_bounds (Accumulate e f # cs) = TWO_PI / r_max_of e (getBox f) # k_bounds cs"

subsection \<open>Invariant and specification functions\<close>

text \<open>Every worker's histogram has one cell per bin of the axis.\<close>

definition hists_ok :: "nat \<Rightarrow> local_histograms \<Rightarrow> bool" where
  "hists_ok nb hs = list_all (\<lambda>wh. length (snd wh) = nb) hs"

definition ssf_inv :: "ssf \<Rightarrow> bool" where
  "ssf_inv s \<longleftrightarrow>
     hists_ok (nbins (m_histogram s)) (m_local_histograms s) \<and>
     length (m_structure_factor s) = nbins (m_histogram s)"

text \<open>
  The sum of \<open>sinc(k \<cdot> distance)\<close> over all ordered pairs of the first \<open>n\<close> points,
  self-pairs included.
\<close>

definition pair_sum :: "box \<Rightarrow> vec3 list \<Rightarrow> nat \<Rightarrow> float \<Rightarrow> float" where
  "pair_sum b pts n k =
     sum_list (map (\<lambda>(i, j). sinc (k * computeDistance b (pts ! i) (pts ! j)))
                   (List.product [0..<n] [0..<n]))"

subsection \<open>Concrete inputs\<close>

text \<open>
  A box of sides 4, 6 and 8 in which two different points are at distance 1, a frame of
  one point and a frame of two, a \<^verbatim>\<open>nextafter\<close> on a grid of eighths, two workers
  that share the bins by parity, and two RDF collaborators: one that throws, and one
  that finds \<open>g(r) = 1\<close> in each of its bins.
\<close>

definition demo_box :: box where
  "demo_box =
     \<lparr>getL = Vec3 (Fin 4) (Fin 6) (Fin 8), is2D = False, getVolume = Fin 192,
      computeDistance = (\<lambda>p q. if p = q then Fin 0 else Fin 1)\<rparr>"

definition origin :: vec3 where
  "origin = Vec3 (Fin 0) (Fin 0) (Fin 0)"

definition one_point :: frame where
  "one_point = \<lparr>getBox = demo_box, query_points = [origin], n_query_points = 1\<rparr>"

definition two_points :: frame where
  "two_points =
     \<lparr>getBox = demo_box, query_points = [origin, Vec3 (Fin 1) (Fin 0) (Fin 0)],
      n_query_points = 2\<rparr>"

definition grid_nextafter :: "float \<Rightarrow> float \<Rightarrow> float" where
  "grid_nextafter x y =
     (if y < x then x - Fin (1 / 8) else if x < y then x + Fin (1 / 8) else y)"

definition throwing_env :: env where
  "throwing_env =
     \<lparr>worker_of = (\<lambda>k. k mod 2), nextafter = grid_nextafter,
      rdf_accumulate = (\<lambda>nb r f. Inl (collaborator_error ''RDF failed''))\<rparr>"

definition ideal_gas_env :: env where
  "ideal_gas_env =
     \<lparr>worker_of = (\<lambda>k. k mod 2), nextafter = grid_nextafter,
      rdf_accumulate = (\<lambda>nb r f.
        Inr (getBinCenters \<lparr>nbins = nb, axis_min = Fin 0, axis_max = r\<rparr>,
             replicate nb (Fin 1)))\<rparr>"

text \<open>
  An RDF-mode engine and a direct-mode engine after two frames, with the partial sums of
  two workers.
\<close>

definition rdf_state :: ssf where
  "rdf_state =
     \<lparr>m_direct = False, m_frame_counter = 2,
      m_histogram = \<lparr>nbins = 2, axis_min = Fin 0, axis_max = Fin 2\<rparr>,
      m_local_histograms = [(0, [Fin 1, Fin 2]), (1, [Fin 3, Fin 4])],
      m_min_valid_k = Fin 3,
      m_structure_factor = [Fin 0, Fin 0], m_reduce = True\<rparr>"

definition direct_state :: ssf where
  "direct_state = rdf_state\<lparr>m_direct := True, m_min_valid_k := PInf\<rparr>"

text \<open>
  Two engines as the constructor makes them, with two bins between 0 and 2: one in direct
  mode, one in RDF mode.
\<close>

definition fresh_direct :: ssf where
  "fresh_direct =
     \<lparr>m_direct = True, m_frame_counter = 0,
      m_histogram = \<lparr>nbins = 2, axis_min = Fin 0, axis_max = Fin 2\<rparr>,
      m_local_histograms = [], m_min_valid_k = PInf,
      m_structure_factor = [Fin 0, Fin 0], m_reduce = False\<rparr>"

definition fresh_rdf :: ssf where
  "fresh_rdf = fresh_direct\<lparr>m_direct := False\<rparr>"

text \<open>A frame of one point in a two-dimensional box of sides 12 and 10.\<close>

definition flat_frame :: frame where
  "flat_frame =
     \<lparr>getBox = \<lparr>getL = Vec3 (Fin 12) (Fin 10) (Fin 0), is2D = True, getVolume = Fin 120,
                computeDistance = (\<lambda>p q. if p = q then Fin 0 else Fin 1)\<rparr>,
      query_points = [origin], n_query_points = 1\<rparr>"

text \<open>A frame of 65536 query points, all at the origin.\<close>

definition many_points :: frame where
  "many_points =
     \<lparr>getBox = demo_box, query_points = replicate 65536 origin, n_query_points = 65536\<rparr>"

text \<open>
  What the C standard asks of \<^verbatim>\<open>std::nextafter\<close> when its second argument is below
  its first, for the values that the floating-point format can represent: the result is
  the representable value next below the first argument.
\<close>

definition conforming_nextafter :: "(real \<Rightarrow> bool) \<Rightarrow> (float \<Rightarrow> float \<Rightarrow> float) \<Rightarrow> bool" where
  "conforming_nextafter representable na \<longleftrightarrow>
     (\<forall>x y. representable x \<and> representable y \<and> y < x \<longrightarrow>
        (\<exists>r. na (Fin x) (Fin y) = Fin r \<and> representable r \<and> r < x \<and>
             (\<forall>z. representable z \<and> z < x \<longrightarrow> z \<le> r)))"

text \<open>The values of a format with a step of one eighth everywhere.\<close>

definition eighths :: "real \<Rightarrow> bool" where
  "eighths x \<longleftrightarrow> (\<exists>k::int. x = real_of_int k / 8)"

section \<open>Properties\<close>

subsection \<open>Arithmetic of the idealised floats\<close>

lemma Fin_plus [simp]: "Fin a + Fin b = Fin (a + b)"
  by (simp add: plus_float_def)

lemma Fin_times [simp]: "Fin a * Fin b = Fin (a * b)"
  by (simp add: times_float_def)

lemma Fin_minus [simp]: "Fin a - Fin b = Fin (a - b)"
  by (simp add: minus_float_def)

lemma Fin_divide [simp]: "b \<noteq> 0 \<Longrightarrow> Fin a / Fin b = Fin (a / b)"
  by (simp add: divide_float_def)

lemma Fin_less [simp]: "Fin a < Fin b \<longleftrightarrow> a < b"
  by (simp add: less_float_def)

lemma Fin_le [simp]: "Fin a \<le> Fin b \<longleftrightarrow> a \<le> b"
  by (simp add: less_eq_float_def)

lemma float_less_imp_le: "(a::float) < b \<Longrightarrow> a \<le> b"
  by (cases a; cases b) (simp_all add: less_float_def less_eq_float_def)

lemma float_le_refl: "a \<noteq> NaN \<Longrightarrow> (a::float) \<le> a"
  by (cases a) (simp_all add: less_eq_float_def)

lemma sinc_zero [simp]: "sinc (Fin 0) = Fin 1"
  by (simp add: sinc_def zero_float_def one_float_def)

lemma float_div_one [simp]: "(x::float) / Fin 1 = x"
  by (cases x) (simp_all add: divide_float_def)

lemma of_uint_one [simp]: "of_uint 1 = Fin 1"
  by (simp add: of_uint_def)

lemma of_uint_two [simp]: "of_uint 2 = Fin 2"
  by (simp add: of_uint_def)

subsection \<open>Construction\<close>

text \<open>
  C6. The constructor throws \<^verbatim>\<open>std::invalid_argument\<close>, and yields no engine, exactly
  when the bin count is zero, or \<open>k_max \<le> 0\<close>, or \<open>k_max \<le> k_min\<close> (the comparisons
  of floats). So it fails for zero bins, for \<open>k_max = 0\<close>, for \<open>k_max = k_min\<close> and
  for \<open>k_max < k_min\<close>, and it succeeds for one bin with \<open>k_min = 0\<close> and
  \<open>k_max = 1\<close>.
\<close>

theorem constructor_validation:
  "((\<exists>msg. StaticStructureFactor r0 bins k_max k_min direct = Inl (invalid_argument msg))
      \<longleftrightarrow> bins = 0 \<or> k_max \<le> Fin 0 \<or> k_max \<le> k_min) \<and>
   ((\<exists>s. StaticStructureFactor r0 bins k_max k_min direct = Inr s)
      \<longleftrightarrow> \<not> (bins = 0 \<or> k_max \<le> Fin 0 \<or> k_max \<le> k_min)) \<and>
   isl (StaticStructureFactor r0 0 k_max k_min direct) \<and>
   isl (StaticStructureFactor r0 bins (Fin 0) k_min direct) \<and>
   isl (StaticStructureFactor r0 bins (Fin a) (Fin a) direct) \<and>
   (k_max < k_min \<longrightarrow> isl (StaticStructureFactor r0 bins k_max k_min direct)) \<and>
   \<not> isl (StaticStructureFactor r0 1 (Fin 1) (Fin 0) direct)"
  by (simp add: StaticStructureFactor_def float_less_imp_le)

theorem constructor_validation_witness:
  "isl (StaticStructureFactor True 0 (Fin 1) (Fin 0) True) \<and>
   isl (StaticStructureFactor True 10 (Fin 0) (Fin 0) True) \<and>
   isl (StaticStructureFactor True 10 (Fin 3) (Fin 3) False) \<and>
   Fin 2 < Fin 3 \<and> isl (StaticStructureFactor True 10 (Fin 2) (Fin 3) False) \<and>
   StaticStructureFactor True 1 (Fin 1) (Fin 0) True =
     Inr \<lparr>m_direct = True, m_frame_counter = 0,
          m_histogram = \<lparr>nbins = 1, axis_min = Fin 0, axis_max = Fin 1\<rparr>,
          m_local_histograms = [], m_min_valid_k = PInf,
          m_structure_factor = [Fin 0], m_reduce = True\<rparr>"
  using constructor_validation [of True 10 "Fin 2" "Fin 3" False 3]
  by (simp add: StaticStructureFactor_def zero_float_def)

subsection \<open>Thread-local histograms and their merge\<close>

lemma foldl_plus_float:
  "foldl (\<lambda>acc x. acc + g x) (a::float) xs = a + sum_list (map g xs)"
  by (induction xs arbitrary: a) (simp_all add: add.assoc)

lemma merged_sum_list: "merged hs i = sum_list (map (\<lambda>wh. snd wh ! i) hs)"
  by (simp add: merged_def foldl_plus_float)

lemma hists_ok_increment: "hists_ok nb hs \<Longrightarrow> hists_ok nb (increment nb w bin v hs)"
  by (induction hs) (auto simp: hists_ok_def)

text \<open>An increment adds to its bin of the merge and to no other bin.\<close>

lemma merged_increment:
  "hists_ok nb hs \<Longrightarrow> bin < nb \<Longrightarrow> i < nb \<Longrightarrow>
   merged (increment nb w bin v hs) i = (if i = bin then merged hs i + v else merged hs i)"
proof (induction hs)
  case Nil
  then show ?case by (simp add: merged_sum_list)
next
  case (Cons a hs)
  then show ?case
    by (cases a) (auto simp: merged_sum_list hists_ok_def ac_simps)
qed

lemma hists_ok_fold:
  "hists_ok nb hs \<Longrightarrow> hists_ok nb (fold (\<lambda>k. increment nb (w k) k (v k)) ks hs)"
  by (induction ks arbitrary: hs) (simp_all add: hists_ok_increment)

lemma merged_fold_increment:
  "hists_ok nb hs \<Longrightarrow> distinct ks \<Longrightarrow> \<forall>k\<in>set ks. k < nb \<Longrightarrow> i < nb \<Longrightarrow>
   merged (fold (\<lambda>k. increment nb (w k) k (v k)) ks hs) i =
     (if i \<in> set ks then merged hs i + v i else merged hs i)"
proof (induction ks arbitrary: hs)
  case Nil
  then show ?case by simp
next
  case (Cons k ks)
  have ok: "hists_ok nb (increment nb (w k) k (v k) hs)"
    using Cons.prems(1) by (rule hists_ok_increment)
  have "merged (fold (\<lambda>k. increment nb (w k) k (v k)) ks (increment nb (w k) k (v k) hs)) i =
        (if i \<in> set ks then merged (increment nb (w k) k (v k) hs) i + v i
         else merged (increment nb (w k) k (v k) hs) i)"
    using Cons.IH [OF ok] Cons.prems by simp
  then show ?case
    using Cons.prems by (auto simp: merged_increment)
qed

text \<open>A loop over all bins, whatever worker runs each index, adds to every bin once.\<close>

lemma merged_fold_upt:
  "hists_ok nb hs \<Longrightarrow> i < nb \<Longrightarrow>
   merged (fold (\<lambda>k. increment nb (w k) k (v k)) [0..<nb] hs) i = merged hs i + v i"
  by (simp add: merged_fold_increment)

lemma length_getBinCenters [simp]: "length (getBinCenters ax) = nbins ax"
  by (simp add: getBinCenters_def)

lemma length_reduceInto [simp]: "length (reduceInto hs result) = length result"
  by (simp add: reduceInto_def)

subsection \<open>Reduction\<close>

lemma reduce_fields [simp]:
  "m_direct (reduce s) = m_direct s"
  "m_frame_counter (reduce s) = m_frame_counter s"
  "m_histogram (reduce s) = m_histogram s"
  "m_local_histograms (reduce s) = m_local_histograms s"
  "m_min_valid_k (reduce s) = m_min_valid_k s"
  "m_reduce (reduce s) = m_reduce s"
  "length (m_structure_factor (reduce s)) = length (m_structure_factor s)"
  by (simp_all add: reduce_def Let_def)

text \<open>
  C2. In RDF mode \<^verbatim>\<open>reduce\<close> sets every bin of the result to
  \<open>1 + sum / frame_counter\<close>, where \<open>sum\<close> is the sum of that bin over the workers'
  histograms, whatever the frame counter is; with one frame the result is \<open>1 + sum\<close>.
\<close>

theorem reduce_rdf_transform:
  "(\<not> m_direct s \<longrightarrow>
      m_structure_factor (reduce s) =
        map (\<lambda>i. Fin 1 + merged (m_local_histograms s) i / of_uint (m_frame_counter s))
            [0..<length (m_structure_factor s)]) \<and>
   (\<not> m_direct s \<and> m_frame_counter s = 1 \<longrightarrow>
      m_structure_factor (reduce s) =
        map (\<lambda>i. Fin 1 + merged (m_local_histograms s) i)
            [0..<length (m_structure_factor s)]) \<and>
   merged (m_local_histograms s) i = sum_list (map (\<lambda>wh. snd wh ! i) (m_local_histograms s))"
  by (simp add: reduce_def reduceInto_def merged_sum_list)

theorem reduce_rdf_transform_witness:
  "\<not> m_direct rdf_state \<and>
   m_structure_factor (reduce rdf_state) = [Fin 3, Fin 4] \<and>
   m_frame_counter (rdf_state\<lparr>m_frame_counter := 1\<rparr>) = 1 \<and>
   m_structure_factor (reduce (rdf_state\<lparr>m_frame_counter := 1\<rparr>)) = [Fin 5, Fin 7]"
proof -
  have nd: "\<not> m_direct rdf_state" "\<not> m_direct (rdf_state\<lparr>m_frame_counter := 1\<rparr>)"
    by (simp_all add: rdf_state_def)
  have "m_structure_factor (reduce rdf_state) =
        map (\<lambda>i. Fin 1 + merged (m_local_histograms rdf_state) i /
                     of_uint (m_frame_counter rdf_state))
            [0..<length (m_structure_factor rdf_state)]"
    using reduce_rdf_transform [of rdf_state 0] nd by blast
  then have two: "m_structure_factor (reduce rdf_state) = [Fin 3, Fin 4]"
    by (simp add: rdf_state_def merged_def zero_float_def upt_rec)
  have "m_structure_factor (reduce (rdf_state\<lparr>m_frame_counter := 1\<rparr>)) =
        map (\<lambda>i. Fin 1 + merged (m_local_histograms (rdf_state\<lparr>m_frame_counter := 1\<rparr>)) i)
            [0..<length (m_structure_factor (rdf_state\<lparr>m_frame_counter := 1\<rparr>))]"
    using reduce_rdf_transform [of "rdf_state\<lparr>m_frame_counter := 1\<rparr>" 0] nd by simp
  then have "m_structure_factor (reduce (rdf_state\<lparr>m_frame_counter := 1\<rparr>)) =
      [Fin 5, Fin 7]"
    by (simp add: rdf_state_def merged_def zero_float_def upt_rec)
  then show ?thesis
    using nd two by simp
qed

text \<open>
  C7. \<^verbatim>\<open>reduce\<close> is idempotent in both modes and for every frame counter: a second
  call with no \<^verbatim>\<open>accumulate\<close> in between leaves the whole engine, so the values and
  \<open>min_valid_k\<close>, as the first call left them.
\<close>

theorem reduce_idempotent:
  "reduce (reduce s) = reduce s \<and>
   m_structure_factor (reduce (reduce s)) = m_structure_factor (reduce s) \<and>
   m_min_valid_k (reduce (reduce s)) = m_min_valid_k (reduce s)"
proof -
  have "reduce (reduce s) = reduce s"
    by (cases "m_direct s"; cases "1 < m_frame_counter s")
      (simp_all add: reduce_def Let_def reduceInto_def)
  then show ?thesis by simp
qed

theorem reduce_idempotent_witness:
  "m_structure_factor (reduce (reduce rdf_state)) = [Fin 3, Fin 4] \<and>
   m_min_valid_k (reduce (reduce rdf_state)) = Fin 3 \<and>
   m_structure_factor (reduce (reduce direct_state)) = [Fin 2, Fin 3] \<and>
   m_min_valid_k (reduce (reduce direct_state)) = PInf"
  using reduce_idempotent [of rdf_state] reduce_idempotent [of direct_state]
  by (simp add: reduce_def reduceInto_def rdf_state_def direct_state_def merged_def
      of_uint_def zero_float_def upt_rec)

subsection \<open>The two estimators\<close>

lemma unat_square: "unat (n::32 word) * unat n < 2 ^ 32 \<Longrightarrow> unat (n * n) = unat n * unat n"
  using unat_mult_lem [of n n] by simp

lemma foldl_distances:
  "foldl (\<lambda>S_k distance. S_k + sinc (k * distance)) 0 (computeAllDistances b pts n pts n) =
   pair_sum b pts n k"
  by (simp add: foldl_plus_float computeAllDistances_def pair_sum_def product_concat_map
      map_concat comp_def)

lemma accumulateDirect_outcome:
  "unat (n_query_points f) \<le> length (query_points f) \<Longrightarrow>
   unat (n_query_points f) * unat (n_query_points f) < 2 ^ 32 \<Longrightarrow>
   fst (accumulateDirect e f s) = Returns"
  by (simp add: accumulateDirect_def Let_def unat_square)

text \<open>
  With 65536 query points the product \<open>n * n\<close> of the buffer's size is 0 in
  \<^verbatim>\<open>unsigned int\<close>: the buffer cannot hold the distances written to it.
\<close>

lemma accumulateDirect_overflow:
  "n_query_points f = 65536 \<Longrightarrow> fst (accumulateDirect e f s) = Undefined"
  by (simp add: accumulateDirect_def Let_def)

lemma accumulateDirect_merged:
  assumes "hists_ok (nbins (m_histogram s)) (m_local_histograms s)"
    and "fst (accumulateDirect e f s) = Returns"
    and "i < nbins (m_histogram s)"
  shows "merged (m_local_histograms (snd (accumulateDirect e f s))) i =
         merged (m_local_histograms s) i +
         pair_sum (getBox f) (query_points f) (unat (n_query_points f))
           (getBinCenters (m_histogram s) ! i) / of_uint (n_query_points f)"
  using assms
  by (simp add: accumulateDirect_def Let_def merged_fold_upt foldl_distances split: if_splits)

lemma accumulateDirect_fields:
  "m_direct (snd (accumulateDirect e f s)) = m_direct s"
  "m_frame_counter (snd (accumulateDirect e f s)) = m_frame_counter s"
  "m_histogram (snd (accumulateDirect e f s)) = m_histogram s"
  "m_min_valid_k (snd (accumulateDirect e f s)) = m_min_valid_k s"
  "m_structure_factor (snd (accumulateDirect e f s)) = m_structure_factor s"
  "m_reduce (snd (accumulateDirect e f s)) = m_reduce s"
  by (simp_all add: accumulateDirect_def Let_def)

lemma accumulateDirect_hists_ok:
  "hists_ok (nbins (m_histogram s)) (m_local_histograms s) \<Longrightarrow>
   hists_ok (nbins (m_histogram s)) (m_local_histograms (snd (accumulateDirect e f s)))"
  by (simp add: accumulateDirect_def Let_def hists_ok_fold)

lemma accumulateDirect_never_throws: "fst (accumulateDirect e f s) \<noteq> Throws err"
  by (simp add: accumulateDirect_def Let_def)

lemma accumulateRDF_fields:
  "m_direct (snd (accumulateRDF e f s)) = m_direct s"
  "m_frame_counter (snd (accumulateRDF e f s)) = m_frame_counter s"
  "m_histogram (snd (accumulateRDF e f s)) = m_histogram s"
  "m_min_valid_k (snd (accumulateRDF e f s)) =
     std_min (m_min_valid_k s) (TWO_PI / r_max_of e (getBox f))"
  "m_structure_factor (snd (accumulateRDF e f s)) = m_structure_factor s"
  "m_reduce (snd (accumulateRDF e f s)) = m_reduce s"
  by (simp_all add: accumulateRDF_def Let_def split: sum.splits prod.splits)

lemma accumulateRDF_hists_ok:
  "hists_ok (nbins (m_histogram s)) (m_local_histograms s) \<Longrightarrow>
   hists_ok (nbins (m_histogram s)) (m_local_histograms (snd (accumulateRDF e f s)))"
  by (simp add: accumulateRDF_def Let_def hists_ok_fold split: sum.splits prod.splits)

subsection \<open>One call of accumulate\<close>

lemma accumulate_alt:
  "accumulate e f s =
     (let r = (if m_direct s then accumulateDirect e f s else accumulateRDF e f s)
      in if fst r = Returns
         then (Returns, (snd r)\<lparr>m_frame_counter := m_frame_counter (snd r) + 1,
                                 m_reduce := True\<rparr>)
         else r)"
  by (simp add: accumulate_def Let_def split: prod.splits outcome.splits)

lemma accumulate_outcome:
  "fst (accumulate e f s) =
     fst (if m_direct s then accumulateDirect e f s else accumulateRDF e f s)"
  by (simp add: accumulate_alt Let_def)

lemma accumulate_fields:
  "m_direct (snd (accumulate e f s)) = m_direct s"
  "m_histogram (snd (accumulate e f s)) = m_histogram s"
  "m_structure_factor (snd (accumulate e f s)) = m_structure_factor s"
  "m_min_valid_k (snd (accumulate e f s)) =
     (if m_direct s then m_min_valid_k s
      else std_min (m_min_valid_k s) (TWO_PI / r_max_of e (getBox f)))"
  "m_local_histograms (snd (accumulate e f s)) =
     m_local_histograms (snd (if m_direct s then accumulateDirect e f s
                              else accumulateRDF e f s))"
  by (simp_all add: accumulate_alt Let_def accumulateDirect_fields accumulateRDF_fields)

lemma accumulate_counter:
  "m_frame_counter (snd (accumulate e f s)) =
     (if fst (accumulate e f s) = Returns then m_frame_counter s + 1 else m_frame_counter s)"
  "m_reduce (snd (accumulate e f s)) =
     (if fst (accumulate e f s) = Returns then True else m_reduce s)"
  by (simp_all add: accumulate_alt Let_def accumulateDirect_fields accumulateRDF_fields)

lemma accumulate_inv: "ssf_inv s \<Longrightarrow> ssf_inv (snd (accumulate e f s))"
  by (simp add: ssf_inv_def accumulate_fields accumulateDirect_hists_ok accumulateRDF_hists_ok)

lemma reduce_inv: "ssf_inv s \<Longrightarrow> ssf_inv (reduce s)"
  by (simp add: ssf_inv_def)

lemma run_inv: "ssf_inv s \<Longrightarrow> run cs s = Some s' \<Longrightarrow> ssf_inv s'"
proof (induction cs s rule: run.induct)
  case (1 s)
  then show ?case by simp
next
  case (2 cs s)
  then show ?case by (simp add: reduce_inv)
next
  case (3 e f cs s)
  obtain out t where acc: "accumulate e f s = (out, t)"
    by (cases "accumulate e f s")
  have "ssf_inv t"
    using accumulate_inv [OF "3.prems"(1), of e f] by (simp add: acc)
  moreover have "run cs t = Some s'" and "out \<noteq> Undefined"
    using "3.prems"(2) acc by (cases out; simp)+
  ultimately show ?case
    using "3.IH" acc by (cases out) simp_all
qed

lemma constructor_fields:
  assumes "StaticStructureFactor r0 bins k_max k_min direct = Inr s"
  shows "m_direct s = direct" "m_frame_counter s = 0"
    "m_histogram s = \<lparr>nbins = unat bins, axis_min = k_min, axis_max = k_max\<rparr>"
    "m_local_histograms s = []" "m_min_valid_k s = PInf"
    "m_structure_factor s = replicate (unat bins) 0" "m_reduce s = r0"
  using assms by (auto simp: StaticStructureFactor_def split: if_splits)

lemma constructor_inv:
  "StaticStructureFactor r0 bins k_max k_min direct = Inr s \<Longrightarrow> ssf_inv s"
  by (simp add: ssf_inv_def hists_ok_def constructor_fields)

lemma merged_Nil [simp]: "merged [] i = Fin 0"
  by (simp add: merged_def zero_float_def)

lemma finite_bin_center:
  "axis_min ax = Fin a \<Longrightarrow> axis_max ax = Fin b \<Longrightarrow> i < nbins ax \<Longrightarrow>
   \<exists>c. getBinCenters ax ! i = Fin c"
  by (simp add: getBinCenters_def bin_width_def)

lemma pair_sum_single:
  "computeDistance b p p = Fin 0 \<Longrightarrow> pair_sum b (p # ps) (Suc 0) (Fin c) = Fin 1"
  by (simp add: pair_sum_def zero_float_def)

lemma map_upt_const: "\<forall>i<n. g i = c \<Longrightarrow> map g [0..<n] = replicate n c"
  by (simp add: list_eq_iff_nth_eq)

text \<open>In direct mode a frame of one point adds 1 to every bin of the merge.\<close>

lemma accumulate_single_point:
  assumes "m_direct s" and "hists_ok (nbins (m_histogram s)) (m_local_histograms s)"
    and "n_query_points f = 1" and "query_points f = p # ps"
    and "computeDistance (getBox f) p p = Fin 0"
    and "axis_min (m_histogram s) = Fin a" and "axis_max (m_histogram s) = Fin b"
  shows "fst (accumulate e f s) = Returns"
    and "i < nbins (m_histogram s) \<Longrightarrow>
         merged (m_local_histograms (snd (accumulate e f s))) i =
           merged (m_local_histograms s) i + Fin 1"
proof -
  show ret: "fst (accumulate e f s) = Returns"
    using assms by (simp add: accumulate_outcome accumulateDirect_outcome)
  assume i: "i < nbins (m_histogram s)"
  obtain c where c: "getBinCenters (m_histogram s) ! i = Fin c"
    using finite_bin_center [OF assms(6) assms(7) i] by blast
  have "fst (accumulateDirect e f s) = Returns"
    using ret assms(1) by (simp add: accumulate_outcome)
  then show "merged (m_local_histograms (snd (accumulate e f s))) i =
           merged (m_local_histograms s) i + Fin 1"
    using assms i c
    by (simp add: accumulate_fields accumulateDirect_merged pair_sum_single)
qed

lemma replicate_2: "replicate 2 x = [x, x]"
  by (simp add: numeral_2_eq_2)

lemma fresh_direct_constructed:
  "StaticStructureFactor False 2 (Fin 2) (Fin 0) True = Inr fresh_direct"
  by (simp add: StaticStructureFactor_def fresh_direct_def zero_float_def replicate_2)

lemma fresh_rdf_constructed:
  "StaticStructureFactor False 2 (Fin 2) (Fin 0) False = Inr fresh_rdf"
  by (simp add: StaticStructureFactor_def fresh_direct_def fresh_rdf_def zero_float_def
      replicate_2)

subsection \<open>The direct estimator\<close>

text \<open>
  Within the range of \<^verbatim>\<open>unsigned int\<close>: a direct-mode call of \<^verbatim>\<open>accumulate\<close> with
  \<open>n\<close> query points, at least \<open>n\<close> points in the array and \<open>n\<^sup>2 < 2\<^sup>3\<^sup>2\<close>, so
  that the distance buffer holds all pairs, returns and adds to every bin of the merged
  histogram, at the bin's center \<open>k\<close>, the sum of \<open>sinc(k \<cdot> distance)\<close> over all
  \<open>n\<^sup>2\<close> ordered pairs of points, self-pairs included, divided by \<open>n\<close>. For an engine
  as constructed, with finite bounds, one frame of a single point (at distance 0 from
  itself) and a \<^verbatim>\<open>reduce\<close> give the value 1 in every bin.
\<close>

theorem direct_accumulate_pair_sum:
  "(m_direct s \<and> ssf_inv s \<and>
    unat (n_query_points f) \<le> length (query_points f) \<and>
    unat (n_query_points f) * unat (n_query_points f) < 2 ^ 32 \<longrightarrow>
      fst (accumulate e f s) = Returns \<and>
      (\<forall>i<nbins (m_histogram s).
         merged (m_local_histograms (snd (accumulate e f s))) i =
           merged (m_local_histograms s) i +
           pair_sum (getBox f) (query_points f) (unat (n_query_points f))
             (getBinCenters (m_histogram s) ! i) / of_uint (n_query_points f))) \<and>
   (StaticStructureFactor init bins (Fin k_max) (Fin k_min) True = Inr fresh \<and>
    n_query_points g = 1 \<and> query_points g = p # ps \<and>
    computeDistance (getBox g) p p = Fin 0 \<longrightarrow>
      fst (accumulate e' g fresh) = Returns \<and>
      m_structure_factor (reduce (snd (accumulate e' g fresh))) =
        replicate (unat bins) (Fin 1))"
proof (intro conjI impI)
  assume h: "m_direct s \<and> ssf_inv s \<and>
    unat (n_query_points f) \<le> length (query_points f) \<and>
    unat (n_query_points f) * unat (n_query_points f) < 2 ^ 32"
  then show ret: "fst (accumulate e f s) = Returns"
    by (simp add: accumulate_outcome accumulateDirect_outcome)
  then have "fst (accumulateDirect e f s) = Returns"
    using h by (simp add: accumulate_outcome)
  then show "\<forall>i<nbins (m_histogram s).
         merged (m_local_histograms (snd (accumulate e f s))) i =
           merged (m_local_histograms s) i +
           pair_sum (getBox f) (query_points f) (unat (n_query_points f))
             (getBinCenters (m_histogram s) ! i) / of_uint (n_query_points f)"
    using h by (simp add: ssf_inv_def accumulate_fields accumulateDirect_merged)
next
  assume h: "StaticStructureFactor init bins (Fin k_max) (Fin k_min) True = Inr fresh \<and>
    n_query_points g = 1 \<and> query_points g = p # ps \<and>
    computeDistance (getBox g) p p = Fin 0"
  then have c: "StaticStructureFactor init bins (Fin k_max) (Fin k_min) True = Inr fresh"
    by simp
  note cf = constructor_fields [OF c]
  have pre: "m_direct fresh" "hists_ok (nbins (m_histogram fresh)) (m_local_histograms fresh)"
    "axis_min (m_histogram fresh) = Fin k_min" "axis_max (m_histogram fresh) = Fin k_max"
    by (simp_all add: cf hists_ok_def)
  have g: "n_query_points g = 1" "query_points g = p # ps"
    "computeDistance (getBox g) p p = Fin 0"
    using h by simp_all
  show ret: "fst (accumulate e' g fresh) = Returns"
    using accumulate_single_point(1) [OF pre(1) pre(2) g pre(3) pre(4)] .
  have m: "\<forall>i<unat bins. merged (m_local_histograms (snd (accumulate e' g fresh))) i = Fin 1"
    using accumulate_single_point(2) [OF pre(1) pre(2) g pre(3) pre(4)]
    by (simp add: cf)
  have "m_frame_counter (snd (accumulate e' g fresh)) = 1"
    using ret by (simp add: accumulate_counter cf)
  then show "m_structure_factor (reduce (snd (accumulate e' g fresh))) =
        replicate (unat bins) (Fin 1)"
    using m
    by (simp add: reduce_def reduceInto_def accumulate_fields cf map_upt_const)
qed

theorem direct_accumulate_pair_sum_witness:
  "fst (accumulate ideal_gas_env two_points fresh_direct) = Returns \<and>
   merged (m_local_histograms (snd (accumulate ideal_gas_env two_points fresh_direct))) 0 =
     Fin (1 + 2 * sin (1 / 2)) \<and>
   m_structure_factor (reduce (snd (accumulate ideal_gas_env one_point fresh_direct))) =
     [Fin 1, Fin 1]"
proof -
  have inv: "ssf_inv fresh_direct"
    using fresh_direct_constructed by (rule constructor_inv)
  have pre: "m_direct fresh_direct \<and> ssf_inv fresh_direct \<and>
    unat (n_query_points two_points) \<le> length (query_points two_points) \<and>
    unat (n_query_points two_points) * unat (n_query_points two_points) < 2 ^ 32"
    using inv by (simp add: fresh_direct_def two_points_def)
  have pre1: "StaticStructureFactor False 2 (Fin 2) (Fin 0) True = Inr fresh_direct \<and>
    n_query_points one_point = 1 \<and> query_points one_point = origin # [] \<and>
    computeDistance (getBox one_point) origin origin = Fin 0"
    by (simp add: fresh_direct_constructed one_point_def demo_box_def)
  note inst = direct_accumulate_pair_sum
      [where s = fresh_direct and f = two_points and e = ideal_gas_env and init = False
        and bins = 2 and k_max = 2 and k_min = 0 and fresh = fresh_direct
        and g = one_point and p = origin and ps = "[]" and e' = ideal_gas_env]
  have two: "fst (accumulate ideal_gas_env two_points fresh_direct) = Returns \<and>
      (\<forall>i<nbins (m_histogram fresh_direct).
         merged (m_local_histograms (snd (accumulate ideal_gas_env two_points fresh_direct))) i =
           merged (m_local_histograms fresh_direct) i +
           pair_sum (getBox two_points) (query_points two_points)
             (unat (n_query_points two_points))
             (getBinCenters (m_histogram fresh_direct) ! i) / of_uint (n_query_points two_points))"
    using inst pre by blast
  have one: "m_structure_factor (reduce (snd (accumulate ideal_gas_env one_point fresh_direct))) =
        replicate (unat (2::32 word)) (Fin 1)"
    using inst pre1 by blast
  have c0: "getBinCenters (m_histogram fresh_direct) ! 0 = Fin (1 / 2)"
    by (simp add: fresh_direct_def getBinCenters_def bin_width_def upt_rec)
  have ps: "pair_sum demo_box [origin, Vec3 (Fin 1) (Fin 0) (Fin 0)] 2 (Fin (1 / 2)) =
     Fin (2 + 4 * sin (1 / 2))"
    by (simp add: pair_sum_def demo_box_def origin_def sinc_def zero_float_def
        one_float_def upt_rec)
  have "merged (m_local_histograms (snd (accumulate ideal_gas_env two_points fresh_direct))) 0 =
     Fin (1 + 2 * sin (1 / 2))"
    using two c0 ps by (simp add: fresh_direct_def two_points_def of_uint_def)
  then show ?thesis
    using two one by (simp add: replicate_2)
qed

text \<open>
  C1. The direct estimator does not add the sum over all \<open>n\<^sup>2\<close> pairs for every frame.
  The size of the distance buffer is the product \<open>n * n\<close> in \<^verbatim>\<open>unsigned int\<close>; for a
  frame of 65536 points, on an engine as constructed, that product is 0, the buffer has
  no cell for the \<open>2\<^sup>3\<^sup>2\<close> distances written to it, and the call is undefined.
\<close>

theorem direct_accumulate_buffer_wraps:
  "m_direct fresh_direct \<and> ssf_inv fresh_direct \<and>
   unat (n_query_points many_points) = 65536 \<and>
   length (query_points many_points) = 65536 \<and>
   unat (n_query_points many_points * n_query_points many_points) = 0 \<and>
   fst (accumulate e many_points fresh_direct) = Undefined"
proof -
  have "ssf_inv fresh_direct"
    using fresh_direct_constructed by (rule constructor_inv)
  moreover have "fst (accumulateDirect e many_points fresh_direct) = Undefined"
    by (rule accumulateDirect_overflow) (simp add: many_points_def)
  ultimately show ?thesis
    by (simp add: accumulate_outcome) (simp add: many_points_def fresh_direct_def)
qed

lemma accumulate_direct_merged:
  assumes "m_direct s" and "hists_ok (nbins (m_histogram s)) (m_local_histograms s)"
    and "unat (n_query_points f) \<le> length (query_points f)"
    and "unat (n_query_points f) * unat (n_query_points f) < 2 ^ 32"
  shows "fst (accumulate e f s) = Returns"
    and "i < nbins (m_histogram s) \<Longrightarrow>
         merged (m_local_histograms (snd (accumulate e f s))) i =
           merged (m_local_histograms s) i +
           pair_sum (getBox f) (query_points f) (unat (n_query_points f))
             (getBinCenters (m_histogram s) ! i) / of_uint (n_query_points f)"
proof -
  show ret: "fst (accumulate e f s) = Returns"
    using assms by (simp add: accumulate_outcome accumulateDirect_outcome)
  assume "i < nbins (m_histogram s)"
  moreover have "fst (accumulateDirect e f s) = Returns"
    using ret assms(1) by (simp add: accumulate_outcome)
  ultimately show "merged (m_local_histograms (snd (accumulate e f s))) i =
           merged (m_local_histograms s) i +
           pair_sum (getBox f) (query_points f) (unat (n_query_points f))
             (getBinCenters (m_histogram s) ! i) / of_uint (n_query_points f)"
    using assms by (simp add: accumulate_fields accumulateDirect_merged)
qed

lemma float_mean_of_two: "(Fin 0 + v + v) / Fin 2 = Fin 0 + (v::float)"
  by (cases v) (simp_all add: plus_float_def divide_float_def)

text \<open>
  C3. In direct mode \<^verbatim>\<open>reduce\<close> divides every bin of the merge by the frame counter
  when the counter is greater than 1 and leaves the merge as it is otherwise. So, for
  an engine as constructed, the same frame of one point accumulated twice gives after
  \<^verbatim>\<open>reduce\<close> the values that it gives accumulated once.
\<close>

theorem reduce_direct_average:
  "(m_direct s \<longrightarrow>
      m_structure_factor (reduce s) =
        map (\<lambda>i. if 1 < m_frame_counter s
                 then merged (m_local_histograms s) i / of_uint (m_frame_counter s)
                 else merged (m_local_histograms s) i)
            [0..<length (m_structure_factor s)]) \<and>
   (StaticStructureFactor init bins k_max k_min True = Inr fresh \<and>
    n_query_points f = 1 \<and> query_points f \<noteq> [] \<longrightarrow>
      fst (accumulate e f fresh) = Returns \<and>
      fst (accumulate e' f (snd (accumulate e f fresh))) = Returns \<and>
      m_structure_factor (reduce (snd (accumulate e' f (snd (accumulate e f fresh))))) =
        m_structure_factor (reduce (snd (accumulate e'' f fresh))))"
proof (intro conjI impI)
  assume "m_direct s"
  then show "m_structure_factor (reduce s) =
        map (\<lambda>i. if 1 < m_frame_counter s
                 then merged (m_local_histograms s) i / of_uint (m_frame_counter s)
                 else merged (m_local_histograms s) i)
            [0..<length (m_structure_factor s)]"
    by (simp add: reduce_def reduceInto_def Let_def)
next
  assume h: "StaticStructureFactor init bins k_max k_min True = Inr fresh \<and>
    n_query_points f = 1 \<and> query_points f \<noteq> []"
  then have c: "StaticStructureFactor init bins k_max k_min True = Inr fresh"
    by simp
  note cf = constructor_fields [OF c]
  define v where "v i = pair_sum (getBox f) (query_points f) (unat (n_query_points f))
             (getBinCenters (m_histogram fresh) ! i) / of_uint (n_query_points f)" for i
  have n: "unat (n_query_points f) \<le> length (query_points f)"
    "unat (n_query_points f) * unat (n_query_points f) < 2 ^ 32"
    using h by (simp_all add: Suc_le_eq)
  have d0: "m_direct fresh" "hists_ok (nbins (m_histogram fresh)) (m_local_histograms fresh)"
    by (simp_all add: cf hists_ok_def)
  have first: "fst (accumulate x f fresh) = Returns \<and>
      m_frame_counter (snd (accumulate x f fresh)) = 1 \<and>
      (\<forall>i<unat bins. merged (m_local_histograms (snd (accumulate x f fresh))) i = Fin 0 + v i)"
    for x
    using accumulate_direct_merged [OF d0 n, where e = x]
    by (simp add: accumulate_counter cf v_def)
  let ?s1 = "snd (accumulate e f fresh)"
  have inv1: "ssf_inv ?s1"
    using constructor_inv [OF c] by (rule accumulate_inv)
  have d1: "m_direct ?s1" "hists_ok (nbins (m_histogram ?s1)) (m_local_histograms ?s1)"
    using inv1 by (simp_all add: accumulate_fields cf ssf_inv_def)
  have second: "fst (accumulate e' f ?s1) = Returns \<and>
      m_frame_counter (snd (accumulate e' f ?s1)) = 2 \<and>
      (\<forall>i<unat bins. merged (m_local_histograms (snd (accumulate e' f ?s1))) i =
         Fin 0 + v i + v i)"
    using accumulate_direct_merged [OF d1 n, where e = e'] first [of e]
    by (simp add: accumulate_counter accumulate_fields cf v_def)
  show "fst (accumulate e f fresh) = Returns"
    using first by simp
  show "fst (accumulate e' f ?s1) = Returns"
    using second by simp
  have once: "m_structure_factor (reduce (snd (accumulate e'' f fresh))) =
      map (\<lambda>i. Fin 0 + v i) [0..<unat bins]"
    using first [of e'']
    by (simp add: reduce_def reduceInto_def Let_def accumulate_fields cf)
  have twice: "m_structure_factor (reduce (snd (accumulate e' f ?s1))) =
      map (\<lambda>i. (Fin 0 + v i + v i) / Fin 2) [0..<unat bins]"
    using second
    by (simp add: reduce_def reduceInto_def Let_def accumulate_fields cf)
  show "m_structure_factor (reduce (snd (accumulate e' f ?s1))) =
        m_structure_factor (reduce (snd (accumulate e'' f fresh)))"
    by (simp add: once twice float_mean_of_two)
qed

theorem reduce_direct_average_witness:
  "m_direct direct_state \<and>
   m_structure_factor (reduce direct_state) = [Fin 2, Fin 3] \<and>
   m_structure_factor
     (reduce (snd (accumulate throwing_env one_point
                     (snd (accumulate ideal_gas_env one_point fresh_direct))))) =
   m_structure_factor (reduce (snd (accumulate ideal_gas_env one_point fresh_direct)))"
proof -
  note inst = reduce_direct_average
    [where s = direct_state and init = False and bins = 2 and k_max = "Fin 2"
      and k_min = "Fin 0" and fresh = fresh_direct and f = one_point
      and e = ideal_gas_env and e' = throwing_env and e'' = ideal_gas_env]
  have pre: "StaticStructureFactor False 2 (Fin 2) (Fin 0) True = Inr fresh_direct \<and>
    n_query_points one_point = 1 \<and> query_points one_point \<noteq> []"
    by (simp add: fresh_direct_constructed one_point_def)
  have one: "m_structure_factor
     (reduce (snd (accumulate throwing_env one_point
                     (snd (accumulate ideal_gas_env one_point fresh_direct))))) =
   m_structure_factor (reduce (snd (accumulate ideal_gas_env one_point fresh_direct)))"
    using inst pre by blast
  have d: "m_direct direct_state"
    by (simp add: direct_state_def)
  have "m_structure_factor (reduce direct_state) =
        map (\<lambda>i. if 1 < m_frame_counter direct_state
                 then merged (m_local_histograms direct_state) i /
                      of_uint (m_frame_counter direct_state)
                 else merged (m_local_histograms direct_state) i)
            [0..<length (m_structure_factor direct_state)]"
    using inst d by blast
  then have "m_structure_factor (reduce direct_state) = [Fin 2, Fin 3]"
    by (simp add: direct_state_def rdf_state_def merged_def zero_float_def upt_rec)
  then show ?thesis
    using one d by simp
qed

subsection \<open>The frame counter, the dirty flag and the bound on k\<close>

lemma std_min_cases: "std_min a b = a \<or> std_min a b < a"
  by (simp add: std_min_def)

lemma accumulateRDF_outcome:
  "fst (accumulateRDF e f s) =
     (case rdf_accumulate e rdf_bins (r_max_of e (getBox f)) f of
        Inl err \<Rightarrow> Throws err
      | Inr (rdf_centers, rdf_values) \<Rightarrow>
          if length rdf_centers < rdf_bins \<or> length rdf_values < rdf_bins
          then Undefined else Returns)"
  by (simp add: accumulateRDF_def Let_def split: sum.splits prod.splits)

lemma accumulate_throws:
  assumes "fst (accumulate e f s) = Throws err"
  shows "\<not> m_direct s"
    and "snd (accumulate e f s) =
         s\<lparr>m_min_valid_k := std_min (m_min_valid_k s) (TWO_PI / r_max_of e (getBox f))\<rparr>"
proof -
  show d: "\<not> m_direct s"
    using assms by (auto simp: accumulate_outcome accumulateDirect_never_throws)
  then have "fst (accumulateRDF e f s) = Throws err"
    using assms by (simp add: accumulate_outcome)
  then show "snd (accumulate e f s) =
         s\<lparr>m_min_valid_k := std_min (m_min_valid_k s) (TWO_PI / r_max_of e (getBox f))\<rparr>"
    using d by (simp add: accumulate_alt Let_def)
      (simp add: accumulateRDF_def Let_def split: sum.splits prod.splits if_splits)
qed

lemma demo_r_max:
  "r_max_of throwing_env demo_box = Fin (15 / 8)"
  "r_max_of ideal_gas_env demo_box = Fin (15 / 8)"
  by (simp_all add: r_max_of_def throwing_env_def ideal_gas_env_def grid_nextafter_def
      min_box_length_def demo_box_def std_min_def)

lemma demo_k_bound: "TWO_PI / Fin (15 / 8) = Fin (16 * pi / 15)"
  by (simp add: TWO_PI_def)

lemma Fin_less_PInf [simp]: "Fin a < PInf"
  by (simp add: less_float_def)

text \<open>
  C8, as the code has it. A call of \<^verbatim>\<open>accumulate\<close> that returns adds exactly 1 to the
  frame counter (an \<^verbatim>\<open>unsigned int\<close>), sets the dirty flag, and leaves \<open>min_valid_k\<close>
  as it was or lowers it. \<^verbatim>\<open>reduce\<close> changes none of the three: it leaves the frame
  counter, \<open>min_valid_k\<close> and also the dirty flag as they were.
\<close>

theorem accumulation_state_frame:
  "(fst (accumulate e f s) = Returns \<longrightarrow>
      m_frame_counter (snd (accumulate e f s)) = m_frame_counter s + 1 \<and>
      m_reduce (snd (accumulate e f s)) \<and>
      (m_min_valid_k (snd (accumulate e f s)) = m_min_valid_k s \<or>
       m_min_valid_k (snd (accumulate e f s)) < m_min_valid_k s)) \<and>
   m_frame_counter (reduce s) = m_frame_counter s \<and>
   m_min_valid_k (reduce s) = m_min_valid_k s \<and>
   m_reduce (reduce s) = m_reduce s"
  by (simp add: accumulate_counter accumulate_fields std_min_cases)

theorem accumulation_state_frame_witness:
  "fst (accumulate ideal_gas_env one_point fresh_rdf) = Returns \<and>
   m_frame_counter (snd (accumulate ideal_gas_env one_point fresh_rdf)) = 1 \<and>
   m_reduce (snd (accumulate ideal_gas_env one_point fresh_rdf)) \<and>
   m_min_valid_k fresh_rdf = PInf \<and>
   m_min_valid_k (snd (accumulate ideal_gas_env one_point fresh_rdf)) = Fin (16 * pi / 15) \<and>
   m_reduce (reduce fresh_rdf) = False"
proof -
  have ret: "fst (accumulate ideal_gas_env one_point fresh_rdf) = Returns"
    by (simp add: accumulate_outcome accumulateRDF_outcome fresh_rdf_def fresh_direct_def
        ideal_gas_env_def)
  have k: "m_min_valid_k (snd (accumulate ideal_gas_env one_point fresh_rdf)) =
      Fin (16 * pi / 15)"
    by (simp add: accumulate_fields fresh_rdf_def fresh_direct_def one_point_def demo_r_max
        demo_k_bound std_min_def)
  show ?thesis
    using accumulation_state_frame [of ideal_gas_env one_point fresh_rdf] ret k
    by (simp add: fresh_rdf_def fresh_direct_def)
qed

text \<open>
  C8 as stated fails: after a frame has set the dirty flag, \<^verbatim>\<open>reduce\<close> leaves it set.
\<close>

theorem reduce_keeps_dirty_flag:
  "m_reduce (reduce (snd (accumulate ideal_gas_env one_point fresh_direct)))"
proof -
  have "fst (accumulate ideal_gas_env one_point fresh_direct) = Returns"
    by (simp add: accumulate_outcome accumulateDirect_outcome fresh_direct_def one_point_def)
  then show ?thesis
    by (simp add: accumulate_counter)
qed

text \<open>
  C10. The frame counter and the dirty flag change only after the estimator has
  completed. When \<^verbatim>\<open>accumulate\<close> throws, both are as before, and so is the whole
  engine but for \<open>min_valid_k\<close>, which in RDF mode already holds the minimum with this
  frame's bound \<open>2\<pi> / r_max\<close>; when \<^verbatim>\<open>accumulate\<close> returns, the counter is one more
  and the flag is set.
\<close>

theorem accumulate_throw_keeps_counter:
  "(fst (accumulate e f s) = Throws err \<longrightarrow>
      m_frame_counter (snd (accumulate e f s)) = m_frame_counter s \<and>
      m_reduce (snd (accumulate e f s)) = m_reduce s \<and>
      snd (accumulate e f s) =
        s\<lparr>m_min_valid_k :=
            if m_direct s then m_min_valid_k s
            else std_min (m_min_valid_k s) (TWO_PI / r_max_of e (getBox f))\<rparr>) \<and>
   (fst (accumulate e f s) = Returns \<longrightarrow>
      m_frame_counter (snd (accumulate e f s)) = m_frame_counter s + 1 \<and>
      m_reduce (snd (accumulate e f s)))"
  using accumulate_throws [of e f s err]
  by (simp add: accumulate_counter)

theorem accumulate_throw_keeps_counter_witness:
  "fst (accumulate throwing_env one_point fresh_rdf) = Throws (collaborator_error ''RDF failed'') \<and>
   m_frame_counter (snd (accumulate throwing_env one_point fresh_rdf)) = 0 \<and>
   m_reduce (snd (accumulate throwing_env one_point fresh_rdf)) = False \<and>
   m_min_valid_k fresh_rdf = PInf \<and>
   m_min_valid_k (snd (accumulate throwing_env one_point fresh_rdf)) = Fin (16 * pi / 15) \<and>
   fst (accumulate ideal_gas_env one_point fresh_rdf) = Returns \<and>
   m_frame_counter (snd (accumulate ideal_gas_env one_point fresh_rdf)) = 1 \<and>
   m_reduce (snd (accumulate ideal_gas_env one_point fresh_rdf))"
proof -
  have thr: "fst (accumulate throwing_env one_point fresh_rdf) =
      Throws (collaborator_error ''RDF failed'')"
    by (simp add: accumulate_outcome accumulateRDF_outcome fresh_rdf_def fresh_direct_def
        throwing_env_def)
  have ret: "fst (accumulate ideal_gas_env one_point fresh_rdf) = Returns"
    by (simp add: accumulate_outcome accumulateRDF_outcome fresh_rdf_def fresh_direct_def
        ideal_gas_env_def)
  have "snd (accumulate throwing_env one_point fresh_rdf) =
        fresh_rdf\<lparr>m_min_valid_k :=
          if m_direct fresh_rdf then m_min_valid_k fresh_rdf
          else std_min (m_min_valid_k fresh_rdf)
                 (TWO_PI / r_max_of throwing_env (getBox one_point))\<rparr>"
    using accumulate_throw_keeps_counter
      [of throwing_env one_point fresh_rdf "collaborator_error ''RDF failed''"] thr
    by blast
  then have a: "m_frame_counter (snd (accumulate throwing_env one_point fresh_rdf)) = 0 \<and>
      m_reduce (snd (accumulate throwing_env one_point fresh_rdf)) = False \<and>
      m_min_valid_k fresh_rdf = PInf \<and>
      m_min_valid_k (snd (accumulate throwing_env one_point fresh_rdf)) = Fin (16 * pi / 15)"
    by (simp add: fresh_rdf_def fresh_direct_def one_point_def demo_r_max demo_k_bound
        std_min_def)
  have "m_frame_counter (snd (accumulate ideal_gas_env one_point fresh_rdf)) =
          m_frame_counter fresh_rdf + 1 \<and>
        m_reduce (snd (accumulate ideal_gas_env one_point fresh_rdf))"
    using accumulate_throw_keeps_counter [of ideal_gas_env one_point fresh_rdf "collaborator_error ''RDF failed''"]
      ret
    by blast
  then have b: "m_frame_counter (snd (accumulate ideal_gas_env one_point fresh_rdf)) = 1 \<and>
      m_reduce (snd (accumulate ideal_gas_env one_point fresh_rdf))"
    by (simp add: fresh_rdf_def fresh_direct_def)
  show ?thesis
    using thr ret a b by simp
qed

subsection \<open>The running minimum\<close>

lemma float_le_trans: "(a::float) \<le> b \<Longrightarrow> b \<le> c \<Longrightarrow> a \<le> c"
  by (cases a; cases b; cases c) (simp_all add: less_eq_float_def)

lemma float_le_not_less: "(a::float) \<le> b \<Longrightarrow> \<not> b < a"
  by (cases a; cases b) (simp_all add: less_eq_float_def less_float_def)

lemma float_not_less_le: "a \<noteq> NaN \<Longrightarrow> b \<noteq> NaN \<Longrightarrow> \<not> (a::float) < b \<Longrightarrow> b \<le> a"
  by (cases a; cases b) (simp_all add: less_eq_float_def less_float_def)

lemma float_less_not_NaN: "(a::float) < b \<Longrightarrow> a \<noteq> NaN \<and> b \<noteq> NaN"
  by (cases a; cases b) (simp_all add: less_float_def)

lemma std_min_not_NaN: "a \<noteq> NaN \<Longrightarrow> std_min a b \<noteq> NaN"
  using float_less_not_NaN [of b a] by (simp add: std_min_def)

lemma std_min_le_left: "a \<noteq> NaN \<Longrightarrow> std_min a b \<le> a"
  by (simp add: std_min_def float_less_imp_le float_le_refl)

lemma std_min_le_right: "a \<noteq> NaN \<Longrightarrow> b \<noteq> NaN \<Longrightarrow> std_min a b \<le> b"
  by (simp add: std_min_def float_le_refl float_not_less_le)

text \<open>A running \<^verbatim>\<open>std::min\<close> from a value that is no NaN yields the minimum.\<close>

lemma foldl_std_min:
  "a \<noteq> NaN \<Longrightarrow>
   foldl std_min a xs \<noteq> NaN \<and>
   foldl std_min a xs \<le> a \<and>
   (\<forall>x\<in>set xs. \<not> x < foldl std_min a xs) \<and>
   (foldl std_min a xs = a \<or> foldl std_min a xs \<in> set xs)"
proof (induction xs arbitrary: a)
  case Nil
  then show ?case by (simp add: float_le_refl)
next
  case (Cons x xs)
  let ?a = "std_min a x"
  let ?m = "foldl std_min ?a xs"
  have a': "?a \<noteq> NaN"
    using Cons.prems by (rule std_min_not_NaN)
  note ih = Cons.IH [OF a']
  have le: "?m \<le> a"
    using ih std_min_le_left [OF Cons.prems, of x] by (blast intro: float_le_trans)
  have x: "\<not> x < ?m"
  proof (cases "x = NaN")
    case True
    then show ?thesis by (simp add: less_float_def)
  next
    case False
    then have "?m \<le> x"
      using ih std_min_le_right [OF Cons.prems False] by (blast intro: float_le_trans)
    then show ?thesis by (rule float_le_not_less)
  qed
  have "?a = a \<or> ?a = x"
    by (simp add: std_min_def)
  then have mem: "?m = a \<or> ?m \<in> set (x # xs)"
    using ih by auto
  show ?case
    using ih le x mem by simp
qed

lemma std_min_Fin: "std_min (Fin a) (Fin b) = Fin (min a b)"
  by (simp add: std_min_def min_def)

lemma foldl_std_min_Fin: "foldl std_min (Fin a) (map Fin rs) = Fin (Min (set (a # rs)))"
proof -
  have "foldl std_min (Fin a) (map Fin rs) = Fin (fold min rs a)"
    by (induction rs arbitrary: a) (simp_all add: std_min_Fin min.commute)
  then show ?thesis
    using Min.set_eq_fold [of a rs] by simp
qed

lemma foldl_std_min_PInf_Fin:
  "rs \<noteq> [] \<Longrightarrow> foldl std_min PInf (map Fin rs) = Fin (Min (set rs))"
  by (cases rs) (simp_all add: std_min_def foldl_std_min_Fin del: set_simps)

lemma run_m_direct: "run cs s = Some s' \<Longrightarrow> m_direct s' = m_direct s"
proof (induction cs s rule: run.induct)
  case (1 s)
  then show ?case by simp
next
  case (2 cs s)
  then show ?case by simp
next
  case (3 e f cs s)
  obtain out t where acc: "accumulate e f s = (out, t)"
    by (cases "accumulate e f s")
  have t: "t = snd (accumulate e f s)"
    by (simp add: acc)
  have "run cs t = Some s'"
    using "3.prems" acc by (cases out) simp_all
  moreover have "out \<noteq> Undefined"
    using "3.prems" acc by (cases out) simp_all
  ultimately have "m_direct s' = m_direct t"
    using "3.IH" acc by (cases out) simp_all
  then show ?case
    by (simp add: t accumulate_fields)
qed

lemma run_min_valid_k:
  "run cs s = Some s' \<Longrightarrow>
   m_min_valid_k s' =
     (if m_direct s then m_min_valid_k s else foldl std_min (m_min_valid_k s) (k_bounds cs))"
proof (induction cs s rule: run.induct)
  case (1 s)
  then show ?case by simp
next
  case (2 cs s)
  then show ?case by simp
next
  case (3 e f cs s)
  obtain out t where acc: "accumulate e f s = (out, t)"
    by (cases "accumulate e f s")
  have t: "t = snd (accumulate e f s)"
    by (simp add: acc)
  have "run cs t = Some s'"
    using "3.prems" acc by (cases out) simp_all
  moreover have "out \<noteq> Undefined"
    using "3.prems" acc by (cases out) simp_all
  ultimately have "m_min_valid_k s' =
     (if m_direct t then m_min_valid_k t else foldl std_min (m_min_valid_k t) (k_bounds cs))"
    using "3.IH" acc by (cases out) simp_all
  then show ?case
    by (simp add: t accumulate_fields)
qed

lemma run_Accumulate:
  "fst (accumulate e f s) \<noteq> Undefined \<Longrightarrow>
   run (Accumulate e f # cs) s = run cs (snd (accumulate e f s))"
  by (cases "accumulate e f s"; cases "fst (accumulate e f s)") simp_all

lemma throwing_env_throws:
  "\<not> m_direct s \<Longrightarrow>
   fst (accumulate throwing_env f s) = Throws (collaborator_error ''RDF failed'')"
  by (simp add: accumulate_outcome accumulateRDF_outcome throwing_env_def)

lemma flat_r_max: "r_max_of throwing_env (getBox flat_frame) = Fin (39 / 8)"
  by (simp add: r_max_of_def throwing_env_def grid_nextafter_def min_box_length_def
      flat_frame_def std_min_def)

lemma flat_k_bound: "TWO_PI / Fin (39 / 8) = Fin (16 * pi / 39)"
  by (simp add: TWO_PI_def)

text \<open>
  C5. The constructor sets \<open>min_valid_k\<close> to \<open>+\<infinity>\<close>. \<^verbatim>\<open>reduce\<close> and a direct-mode
  \<^verbatim>\<open>accumulate\<close> leave it as it is; an RDF-mode \<^verbatim>\<open>accumulate\<close> replaces it by its
  \<^verbatim>\<open>std::min\<close> with the frame's bound \<open>2\<pi> / r_max\<close>. So after any sequence of calls
  on an engine as constructed it is \<open>+\<infinity>\<close> in direct mode, and in RDF mode it is the
  running minimum of the bounds of the frames so far: no bound is below it, it is one of
  them (or \<open>+\<infinity>\<close>), and it is their least when they are finite. Over any sequence of
  calls it does not increase.
\<close>

theorem min_valid_k_running_minimum:
  "(StaticStructureFactor init bins k_max k_min direct = Inr fresh \<longrightarrow>
      m_min_valid_k fresh = PInf) \<and>
   m_min_valid_k (reduce s) = m_min_valid_k s \<and>
   m_min_valid_k (snd (accumulate e f s)) =
     (if m_direct s then m_min_valid_k s
      else std_min (m_min_valid_k s) (TWO_PI / r_max_of e (getBox f))) \<and>
   (StaticStructureFactor init bins k_max k_min direct = Inr fresh \<and>
    run cs fresh = Some s' \<longrightarrow>
      (direct \<longrightarrow> m_min_valid_k s' = PInf) \<and>
      (\<not> direct \<longrightarrow>
         m_min_valid_k s' = foldl std_min PInf (k_bounds cs) \<and>
         (\<forall>x\<in>set (k_bounds cs). \<not> x < m_min_valid_k s') \<and>
         (m_min_valid_k s' = PInf \<or> m_min_valid_k s' \<in> set (k_bounds cs)) \<and>
         (\<forall>rs. rs \<noteq> [] \<and> k_bounds cs = map Fin rs \<longrightarrow>
            m_min_valid_k s' = Fin (Min (set rs))))) \<and>
   (m_min_valid_k s \<noteq> NaN \<and> run cs s = Some t \<longrightarrow> m_min_valid_k t \<le> m_min_valid_k s)"
proof (intro conjI impI)
  assume "StaticStructureFactor init bins k_max k_min direct = Inr fresh"
  then show "m_min_valid_k fresh = PInf"
    by (rule constructor_fields)
next
  show "m_min_valid_k (reduce s) = m_min_valid_k s"
    by simp
next
  show "m_min_valid_k (snd (accumulate e f s)) =
     (if m_direct s then m_min_valid_k s
      else std_min (m_min_valid_k s) (TWO_PI / r_max_of e (getBox f)))"
    by (rule accumulate_fields)
next
  assume h: "StaticStructureFactor init bins k_max k_min direct = Inr fresh \<and>
    run cs fresh = Some s'"
  then have c: "StaticStructureFactor init bins k_max k_min direct = Inr fresh"
    and r: "run cs fresh = Some s'"
    by simp_all
  note cf = constructor_fields [OF c]
  note k = run_min_valid_k [OF r]
  {
    assume direct
    then show "m_min_valid_k s' = PInf"
      using k by (simp add: cf)
  }
  assume "\<not> direct"
  then show m: "m_min_valid_k s' = foldl std_min PInf (k_bounds cs)"
    using k by (simp add: cf)
  have "PInf \<noteq> NaN"
    by simp
  note fm = foldl_std_min [OF this, of "k_bounds cs"]
  show "\<forall>x\<in>set (k_bounds cs). \<not> x < m_min_valid_k s'"
    using fm by (simp add: m)
  show "m_min_valid_k s' = PInf \<or> m_min_valid_k s' \<in> set (k_bounds cs)"
    using fm by (simp add: m)
  show "\<forall>rs. rs \<noteq> [] \<and> k_bounds cs = map Fin rs \<longrightarrow>
            m_min_valid_k s' = Fin (Min (set rs))"
    by (simp add: m foldl_std_min_PInf_Fin)
next
  assume h: "m_min_valid_k s \<noteq> NaN \<and> run cs s = Some t"
  then have k: "m_min_valid_k t =
     (if m_direct s then m_min_valid_k s else foldl std_min (m_min_valid_k s) (k_bounds cs))"
    by (simp add: run_min_valid_k)
  show "m_min_valid_k t \<le> m_min_valid_k s"
    using h foldl_std_min [of "m_min_valid_k s" "k_bounds cs"]
    by (simp add: k float_le_refl)
qed

theorem min_valid_k_running_minimum_witness:
  "map_option m_min_valid_k
     (run [Accumulate throwing_env one_point, Reduce, Accumulate throwing_env flat_frame]
        fresh_rdf) = Some (Fin (16 * pi / 39)) \<and>
   Min (set [16 * pi / 15, 16 * pi / 39]) = 16 * pi / 39 \<and>
   map_option m_min_valid_k
     (run [Accumulate throwing_env one_point, Reduce] fresh_rdf) = Some (Fin (16 * pi / 15)) \<and>
   map_option m_min_valid_k
     (run [Accumulate ideal_gas_env one_point, Reduce, Accumulate ideal_gas_env one_point]
        fresh_direct) = Some PInf \<and>
   m_min_valid_k fresh_rdf = PInf \<and>
   Fin (16 * pi / 39) \<le> PInf"
proof -
  let ?cs = "[Accumulate throwing_env one_point, Reduce, Accumulate throwing_env flat_frame]"
  let ?cs1 = "[Accumulate throwing_env one_point, Reduce]"
  let ?ds = "[Accumulate ideal_gas_env one_point, Reduce, Accumulate ideal_gas_env one_point]"
  have nd: "\<not> m_direct fresh_rdf"
    by (simp add: fresh_rdf_def)
  obtain s' where r: "run ?cs fresh_rdf = Some s'"
    using nd
    by (simp add: run_Accumulate throwing_env_throws accumulate_fields del: run.simps(3))
  obtain s1 where r1: "run ?cs1 fresh_rdf = Some s1"
    using nd
    by (simp add: run_Accumulate throwing_env_throws accumulate_fields del: run.simps(3))
  have dret: "fst (accumulate ideal_gas_env one_point s) = Returns" if "m_direct s" for s
    using that by (simp add: accumulate_outcome accumulateDirect_outcome one_point_def)
  obtain d' where rd: "run ?ds fresh_direct = Some d'"
    by (simp add: run_Accumulate dret accumulate_fields fresh_direct_def del: run.simps(3))
  have kb: "k_bounds ?cs = map Fin [16 * pi / 15, 16 * pi / 39]"
    "k_bounds ?cs1 = [Fin (16 * pi / 15)]"
    by (simp_all add: one_point_def demo_r_max demo_k_bound flat_r_max flat_k_bound)
  note rdf = min_valid_k_running_minimum
      [where init = False and bins = 2 and k_max = "Fin 2" and k_min = "Fin 0"
        and direct = False and fresh = fresh_rdf and s = fresh_rdf and t = s']
  have inf: "m_min_valid_k fresh_rdf = PInf"
    using rdf fresh_rdf_constructed by blast
  have "m_min_valid_k s' = foldl std_min PInf (k_bounds ?cs)"
    using rdf [where cs = ?cs and s' = s'] fresh_rdf_constructed r by blast
  then have a: "m_min_valid_k s' = Fin (16 * pi / 39)"
    unfolding kb by (simp add: std_min_def)
  have "\<forall>rs. rs \<noteq> [] \<and> k_bounds ?cs = map Fin rs \<longrightarrow> m_min_valid_k s' = Fin (Min (set rs))"
    using rdf [where cs = ?cs and s' = s'] fresh_rdf_constructed r by blast
  then have "m_min_valid_k s' = Fin (Min (set [16 * pi / 15, 16 * pi / 39]))"
    using kb(1) by blast
  then have least: "Min (set [16 * pi / 15, 16 * pi / 39]) = 16 * pi / 39"
    using a by simp
  have "m_min_valid_k s' \<le> m_min_valid_k fresh_rdf"
    using rdf [where cs = ?cs] r inf by simp
  then have mono: "Fin (16 * pi / 39) \<le> PInf"
    using a inf by simp
  have "m_min_valid_k s1 = foldl std_min PInf (k_bounds ?cs1)"
    using rdf [where cs = ?cs1 and s' = s1] fresh_rdf_constructed r1 by blast
  then have b: "m_min_valid_k s1 = Fin (16 * pi / 15)"
    unfolding kb by (simp add: std_min_def)
  have c: "m_min_valid_k d' = PInf"
    using min_valid_k_running_minimum
      [where init = False and bins = 2 and k_max = "Fin 2" and k_min = "Fin 0"
        and direct = True and fresh = fresh_direct and cs = ?ds and s' = d']
      fresh_direct_constructed rd
    by blast
  show ?thesis
    unfolding r r1 rd using a b c inf least mono by simp
qed

subsection \<open>The RDF estimator\<close>

text \<open>
  What an RDF-mode frame adds to every bin of the merge: \<open>2 \<cdot> 2\<pi> \<cdot> n / V\<close> times
  Simpson's rule over the first 1001 samples of \<open>r\<^sup>2 (g(r) - 1) sinc(k r)\<close> at the RDF's
  bin centers, with the step that \<open>rdf_dr\<close> computes from the centers.
\<close>

lemma accumulate_rdf_merged:
  assumes "\<not> m_direct s" and "hists_ok (nbins (m_histogram s)) (m_local_histograms s)"
    and "rdf_accumulate e rdf_bins (r_max_of e (getBox f)) f = Inr (rdf_centers, rdf_values)"
    and "rdf_bins \<le> length rdf_centers" and "rdf_bins \<le> length rdf_values"
    and "i < nbins (m_histogram s)"
  shows "merged (m_local_histograms (snd (accumulate e f s))) i =
         merged (m_local_histograms s) i +
         Fin 2 * TWO_PI * of_uint (n_query_points f) / getVolume (getBox f) *
         simpson_integrate
           (\<lambda>j. rdf_centers ! j * rdf_centers ! j * (rdf_values ! j - Fin 1) *
                 sinc (getBinCenters (m_histogram s) ! i * rdf_centers ! j))
           rdf_bins (rdf_dr rdf_centers)"
  using assms
  by (simp add: accumulate_fields accumulateRDF_def Let_def merged_fold_upt not_less [symmetric])

text \<open>
  C4. The step of the integration is not \<open>r_max / 1001\<close>. For the centers of 1001 equal
  bins between 0 and \<open>r_max\<close> the code's step, the distance of the last center from the
  first divided by the number of centers, is \<open>1000 \<cdot> r_max / 1001\<^sup>2\<close>, while the bin
  width, which is the spacing of the centers, is \<open>r_max / 1001\<close>: for \<open>r_max = 1001\<close>
  the step is \<open>1000/1001\<close> and not 1.
\<close>

theorem rdf_dr_is_short_of_bin_width:
  "rdf_dr (getBinCenters \<lparr>nbins = rdf_bins, axis_min = Fin 0, axis_max = Fin r\<rparr>) =
     Fin (1000 * r / 1002001) \<and>
   bin_width \<lparr>nbins = rdf_bins, axis_min = Fin 0, axis_max = Fin r\<rparr> = Fin (r / 1001) \<and>
   rdf_dr (getBinCenters \<lparr>nbins = rdf_bins, axis_min = Fin 0, axis_max = Fin 1001\<rparr>) =
     Fin (1000 / 1001) \<and>
   Fin 1001 / Fin (real rdf_bins) = Fin 1"
  by (simp add: rdf_dr_def getBinCenters_def bin_width_def rdf_bins_def hd_map last_map
      field_simps)

subsection \<open>The radius of the RDF\<close>

lemma min_box_length_Fin:
  "getL b = Vec3 (Fin lx) (Fin ly) (Fin lz) \<Longrightarrow>
   min_box_length b = Fin (if is2D b then min lx ly else min lx (min ly lz))"
  by (simp add: min_box_length_def std_min_Fin)

lemma eighths_less: "eighths z \<Longrightarrow> eighths x \<Longrightarrow> z < x \<Longrightarrow> z \<le> x - 1 / 8"
proof -
  assume "eighths z" and "eighths x" and lt: "z < x"
  then obtain j k :: int where z: "z = real_of_int j / 8" and x: "x = real_of_int k / 8"
    by (auto simp: eighths_def)
  have "j < k"
    using lt by (simp add: z x divide_less_cancel)
  then have "real_of_int j \<le> real_of_int k - 1"
    by linarith
  then show ?thesis
    by (simp add: z x field_simps)
qed

lemma eighths_pred: "eighths x \<Longrightarrow> eighths (x - 1 / 8)"
proof -
  assume "eighths x"
  then obtain k :: int where "x = real_of_int k / 8"
    by (auto simp: eighths_def)
  then have "x - 1 / 8 = real_of_int (k - 1) / 8"
    by (simp add: field_simps)
  then show ?thesis
    unfolding eighths_def by blast
qed

lemma grid_nextafter_conforms: "conforming_nextafter eighths grid_nextafter"
  unfolding conforming_nextafter_def
  by (auto simp: grid_nextafter_def eighths_pred eighths_less)

text \<open>
  C9. In RDF mode, when \<^verbatim>\<open>std::nextafter\<close> does what the C standard asks of it, the
  box has finite sides, and half of its smallest side (of the two in-plane sides of a 2-D
  box, of all three sides of a 3-D box) is positive and representable, \<open>r_max\<close> is the
  largest representable value strictly less than that half. The same \<open>r_max\<close> is the
  radius that the RDF collaborator is constructed and queried with, and the divisor of
  the bound \<open>2\<pi> / r_max\<close> that \<open>min_valid_k\<close> takes the minimum with.
\<close>

theorem r_max_next_below_half_min_side:
  "conforming_nextafter representable (nextafter e) \<and> representable 0 \<and>
   getL (getBox f) = Vec3 (Fin lx) (Fin ly) (Fin lz) \<and>
   half = (if is2D (getBox f) then min lx ly else min lx (min ly lz)) / 2 \<and>
   representable half \<and> 0 < half \<longrightarrow>
     (\<exists>r. r_max_of e (getBox f) = Fin r \<and> representable r \<and> r < half \<and>
          (\<forall>z. representable z \<and> z < half \<longrightarrow> z \<le> r)) \<and>
     fst (accumulateRDF e f s) =
       (case rdf_accumulate e rdf_bins (r_max_of e (getBox f)) f of
          Inl err \<Rightarrow> Throws err
        | Inr (rdf_centers, rdf_values) \<Rightarrow>
            if length rdf_centers < rdf_bins \<or> length rdf_values < rdf_bins
            then Undefined else Returns) \<and>
     m_min_valid_k (snd (accumulateRDF e f s)) =
       std_min (m_min_valid_k s) (TWO_PI / r_max_of e (getBox f))"
proof (intro impI conjI)
  assume h: "conforming_nextafter representable (nextafter e) \<and> representable 0 \<and>
   getL (getBox f) = Vec3 (Fin lx) (Fin ly) (Fin lz) \<and>
   half = (if is2D (getBox f) then min lx ly else min lx (min ly lz)) / 2 \<and>
   representable half \<and> 0 < half"
  then have L: "getL (getBox f) = Vec3 (Fin lx) (Fin ly) (Fin lz)"
    and hf: "half = (if is2D (getBox f) then min lx ly else min lx (min ly lz)) / 2"
    by blast+
  have "Fin (1 / 2) * min_box_length (getBox f) = Fin half"
    by (simp add: min_box_length_Fin [OF L] hf)
  then have "r_max_of e (getBox f) = nextafter e (Fin half) (Fin 0)"
    by (simp add: r_max_of_def)
  moreover have "\<exists>r. nextafter e (Fin half) (Fin 0) = Fin r \<and> representable r \<and> r < half \<and>
             (\<forall>z. representable z \<and> z < half \<longrightarrow> z \<le> r)"
    using h unfolding conforming_nextafter_def by blast
  ultimately show "\<exists>r. r_max_of e (getBox f) = Fin r \<and> representable r \<and> r < half \<and>
          (\<forall>z. representable z \<and> z < half \<longrightarrow> z \<le> r)"
    by simp
next
  show "fst (accumulateRDF e f s) =
       (case rdf_accumulate e rdf_bins (r_max_of e (getBox f)) f of
          Inl err \<Rightarrow> Throws err
        | Inr (rdf_centers, rdf_values) \<Rightarrow>
            if length rdf_centers < rdf_bins \<or> length rdf_values < rdf_bins
            then Undefined else Returns)"
    by (rule accumulateRDF_outcome)
next
  show "m_min_valid_k (snd (accumulateRDF e f s)) =
       std_min (m_min_valid_k s) (TWO_PI / r_max_of e (getBox f))"
    by (rule accumulateRDF_fields)
qed

lemma eighths_numeral [simp]: "eighths 0" "eighths 2" "eighths 5" "eighths (15 / 8)"
  "eighths (39 / 8)"
proof -
  have "(0::real) = real_of_int 0 / 8" "(2::real) = real_of_int 16 / 8"
    "(5::real) = real_of_int 40 / 8" "(15 / 8 ::real) = real_of_int 15 / 8"
    "(39 / 8 ::real) = real_of_int 39 / 8"
    by simp_all
  then show "eighths 0" "eighths 2" "eighths 5" "eighths (15 / 8)" "eighths (39 / 8)"
    unfolding eighths_def by blast+
qed

theorem r_max_next_below_half_min_side_witness:
  "r_max_of throwing_env (getBox one_point) = Fin (15 / 8) \<and>
   r_max_of throwing_env (getBox flat_frame) = Fin (39 / 8) \<and>
   fst (accumulateRDF throwing_env one_point fresh_rdf) =
     Throws (collaborator_error ''RDF failed'') \<and>
   m_min_valid_k (snd (accumulateRDF throwing_env one_point fresh_rdf)) = Fin (16 * pi / 15)"
proof -
  have na: "conforming_nextafter eighths (nextafter throwing_env)"
    using grid_nextafter_conforms by (simp add: throwing_env_def)
  note inst = r_max_next_below_half_min_side
    [where representable = eighths and e = throwing_env and s = fresh_rdf]
  have "(\<exists>r. r_max_of throwing_env (getBox one_point) = Fin r \<and> eighths r \<and> r < 2 \<and>
          (\<forall>z. eighths z \<and> z < 2 \<longrightarrow> z \<le> r)) \<and>
     fst (accumulateRDF throwing_env one_point fresh_rdf) =
       (case rdf_accumulate throwing_env rdf_bins (r_max_of throwing_env (getBox one_point))
               one_point of
          Inl err \<Rightarrow> Throws err
        | Inr (rdf_centers, rdf_values) \<Rightarrow>
            if length rdf_centers < rdf_bins \<or> length rdf_values < rdf_bins
            then Undefined else Returns) \<and>
     m_min_valid_k (snd (accumulateRDF throwing_env one_point fresh_rdf)) =
       std_min (m_min_valid_k fresh_rdf)
         (TWO_PI / r_max_of throwing_env (getBox one_point))"
    using inst [where f = one_point and lx = 4 and ly = 6 and lz = 8 and half = 2] na
    by (simp add: one_point_def demo_box_def)
  then obtain r where r: "r_max_of throwing_env (getBox one_point) = Fin r" "eighths r" "r < 2"
      "\<forall>z. eighths z \<and> z < 2 \<longrightarrow> z \<le> r"
    and thr: "fst (accumulateRDF throwing_env one_point fresh_rdf) =
       (case rdf_accumulate throwing_env rdf_bins (r_max_of throwing_env (getBox one_point))
               one_point of
          Inl err \<Rightarrow> Throws err
        | Inr (rdf_centers, rdf_values) \<Rightarrow>
            if length rdf_centers < rdf_bins \<or> length rdf_values < rdf_bins
            then Undefined else Returns)"
    and k: "m_min_valid_k (snd (accumulateRDF throwing_env one_point fresh_rdf)) =
       std_min (m_min_valid_k fresh_rdf)
         (TWO_PI / r_max_of throwing_env (getBox one_point))"
    by blast
  have "15 / 8 \<le> r"
    using r(4) [rule_format, of "15 / 8"] by simp
  moreover have "r \<le> 2 - 1 / 8"
    using eighths_less [OF r(2) _ r(3)] by simp
  ultimately have r1: "r = 15 / 8"
    by simp
  have "\<exists>r. r_max_of throwing_env (getBox flat_frame) = Fin r \<and> eighths r \<and> r < 5 \<and>
          (\<forall>z. eighths z \<and> z < 5 \<longrightarrow> z \<le> r)"
    using inst [where f = flat_frame and lx = 12 and ly = 10 and lz = 0 and half = 5] na
    by (simp add: flat_frame_def)
  then obtain q where q: "r_max_of throwing_env (getBox flat_frame) = Fin q" "eighths q" "q < 5"
      "\<forall>z. eighths z \<and> z < 5 \<longrightarrow> z \<le> q"
    by blast
  have "39 / 8 \<le> q"
    using q(4) [rule_format, of "39 / 8"] by simp
  moreover have "q \<le> 5 - 1 / 8"
    using eighths_less [OF q(2) _ q(3)] by simp
  ultimately have q1: "q = 39 / 8"
    by simp
  show ?thesis
    using r(1) r1 q(1) q1 thr k
    by (simp add: throwing_env_def fresh_rdf_def fresh_direct_def demo_k_bound std_min_def)
qed

end
